theory Spec2Isabelle
  imports Main "HOL-Library.Sublist"
begin

section \<open>Strings\<close>

text \<open>
  Strings are lists of characters. The helpers below are the string methods that
  \<^verbatim>\<open>lib/extension/publish.js\<close> calls: \<^verbatim>\<open>startsWith\<close>, \<^verbatim>\<open>endsWith\<close>,
  \<^verbatim>\<open>includes\<close>, \<^verbatim>\<open>toLowerCase\<close> and \<^verbatim>\<open>replace\<close> with a string pattern.
\<close>

definition startsWith :: "string \<Rightarrow> string \<Rightarrow> bool" where
  "startsWith s p = (take (length p) s = p)"

definition endsWith :: "string \<Rightarrow> string \<Rightarrow> bool" where
  "endsWith s p = (length p \<le> length s \<and> drop (length s - length p) s = p)"

text \<open>\<^verbatim>\<open>s.includes(p)\<close>: \<open>p\<close> occurs in \<open>s\<close>.\<close>

fun includesStr :: "string \<Rightarrow> string \<Rightarrow> bool" where
  "includesStr [] p = (p = [])"
| "includesStr (c # cs) p = (startsWith (c # cs) p \<or> includesStr cs p)"

text \<open>
  \<^verbatim>\<open>s.replace(p, '')\<close> with a string \<open>p\<close>: only the first occurrence of \<open>p\<close> is removed.
\<close>

fun replaceFirst :: "string \<Rightarrow> string \<Rightarrow> string" where
  "replaceFirst p [] = []"
| "replaceFirst p (c # cs) =
     (if startsWith (c # cs) p then drop (length p) (c # cs) else c # replaceFirst p cs)"

text \<open>\<^verbatim>\<open>toLowerCase\<close> on the letters A to Z; every other character is kept.\<close>

definition lowerChar :: "char \<Rightarrow> char" where
  "lowerChar c =
     (case map_of (zip ''ABCDEFGHIJKLMNOPQRSTUVWXYZ'' ''abcdefghijklmnopqrstuvwxyz'') c of
        Some d \<Rightarrow> d
      | None \<Rightarrow> c)"

definition toLowerCase :: "string \<Rightarrow> string" where
  "toLowerCase s = map lowerChar s"

text \<open>
  The line terminators that a dot of a regular expression does not match and at which
  \<^verbatim>\<open>$\<close> matches under the \<^verbatim>\<open>m\<close> flag: line feed and carriage return.
\<close>

definition isLineTerminator :: "char \<Rightarrow> bool" where
  "isLineTerminator c = (c = CHR 0x0A \<or> c = CHR 0x0D)"

text \<open>Decimal rendering of a number, as a number used as a property key is rendered.\<close>

definition digitChar :: "nat \<Rightarrow> char" where
  "digitChar d = ''0123456789'' ! d"

function decimal :: "nat \<Rightarrow> string" where
  "decimal n = (if n < 10 then [digitChar n] else decimal (n div 10) @ [digitChar (n mod 10)])"
  by pat_completeness auto
termination
  by (relation "measure id") auto

declare decimal.simps [simp del]

section \<open>The topic parser\<close>

text \<open>
  \<^verbatim>\<open>topicRegex = new RegExp(`^(.+?)(?:/(${utils.endpointNames.join('|')}))?/(get|set)(?:/(.+))?`)\<close>

  \<^verbatim>\<open>utils.endpointNames\<close> is not part of the sources at hand; it is the parameter \<open>names\<close>,
  a list of plain words (no character with a meaning in a regular expression).
  The matcher below follows the backtracking order of the expression: the first group is
  lazy, so the shortest identifier is tried first; the endpoint group is tried before it is
  skipped, its alternatives in the order of the list; nothing anchors the end.
\<close>

datatype cmdtype = Get | Set

text \<open>\<^verbatim>\<open>/(get|set)\<close> at the head of \<open>s\<close>; returns the type and the rest.\<close>

definition matchType :: "string \<Rightarrow> (cmdtype \<times> string) option" where
  "matchType s =
     (if startsWith s ''/get'' then Some (Get, drop 4 s)
      else if startsWith s ''/set'' then Some (Set, drop 4 s)
      else None)"

text \<open>\<^verbatim>\<open>(?:/(.+))?\<close> at the head of \<open>s\<close>: the greedy run of characters up to a line terminator.\<close>

definition matchAttribute :: "string \<Rightarrow> string option" where
  "matchAttribute s =
     (case s of
        [] \<Rightarrow> None
      | c # rest \<Rightarrow>
          if c = CHR ''/'' \<and> takeWhile (\<lambda>x. \<not> isLineTerminator x) rest \<noteq> []
          then Some (takeWhile (\<lambda>x. \<not> isLineTerminator x) rest)
          else None)"

text \<open>\<^verbatim>\<open>/(n1|n2|...)/(get|set)\<close> at the head of \<open>s\<close>, the alternatives in order.\<close>

fun matchEndpoint :: "string list \<Rightarrow> string \<Rightarrow> (string \<times> cmdtype \<times> string) option" where
  "matchEndpoint [] s = None"
| "matchEndpoint (n # ns) s =
     (if startsWith s (CHR ''/'' # n)
      then (case matchType (drop (Suc (length n)) s) of
              Some (t, r) \<Rightarrow> Some (n, t, r)
            | None \<Rightarrow> matchEndpoint ns s)
      else matchEndpoint ns s)"

text \<open>An empty list joins to the empty string: the group then holds one empty alternative.\<close>

definition alternatives :: "string list \<Rightarrow> string list" where
  "alternatives names = (if names = [] then [[]] else names)"

text \<open>Everything after the first group: returns groups 2, 3 and 4.\<close>

definition matchTail :: "string list \<Rightarrow> string \<Rightarrow> (string option \<times> cmdtype \<times> string option) option" where
  "matchTail names s =
     (case matchEndpoint (alternatives names) s of
        Some (n, t, r) \<Rightarrow> Some (Some n, t, matchAttribute r)
      | None \<Rightarrow>
          (case matchType s of
             Some (t, r) \<Rightarrow> Some (None, t, matchAttribute r)
           | None \<Rightarrow> None))"

text \<open>
  The lazy first group: \<open>acc\<close> is what the group holds so far (never empty), \<open>s\<close> the rest.
\<close>

fun matchLazy ::
  "string list \<Rightarrow> string \<Rightarrow> string \<Rightarrow> (string \<times> string option \<times> cmdtype \<times> string option) option" where
  "matchLazy names acc [] = None"
| "matchLazy names acc (c # cs) =
     (case matchTail names (c # cs) of
        Some r \<Rightarrow> Some (acc, r)
      | None \<Rightarrow> if isLineTerminator c then None else matchLazy names (acc @ [c]) cs)"

text \<open>\<^verbatim>\<open>topic.match(topicRegex)\<close>: the four groups, or \<open>None\<close> for \<^verbatim>\<open>null\<close>.\<close>

definition topicMatch ::
  "string list \<Rightarrow> string \<Rightarrow> (string \<times> string option \<times> cmdtype \<times> string option) option" where
  "topicMatch names topic =
     (case topic of
        [] \<Rightarrow> None
      | c # cs \<Rightarrow> if isLineTerminator c then None else matchLazy names [c] cs)"

record topicDescriptor =
  ID :: string
  endpointName :: string
  type :: cmdtype
  attribute :: "string option"

text \<open>
  \<^verbatim>\<open>parseTopic(topic)\<close>; \<open>base\<close> is \<^verbatim>\<open>settings.get().mqtt.base_topic\<close>.
\<close>

definition parseTopic :: "string \<Rightarrow> string list \<Rightarrow> string \<Rightarrow> topicDescriptor option" where
  "parseTopic base names topic =
     (case topicMatch names topic of
        None \<Rightarrow> None
      | Some (m1, m2, m3, m4) \<Rightarrow>
          let ident = replaceFirst (base @ ''/'') m1 in
          if ident = m1 \<or> includesStr ident ''bridge'' then None
          else Some \<lparr>ID = ident,
                     endpointName = (case m2 of None \<Rightarrow> [] | Some n \<Rightarrow> n),
                     type = m3,
                     attribute = m4\<rparr>)"

section \<open>Values and objects\<close>

text \<open>
  The values the extension handles: what \<^verbatim>\<open>JSON.parse\<close> returns, plus \<^verbatim>\<open>undefined\<close>.
  An object is the list of its own properties in the order \<^verbatim>\<open>Object.entries\<close> lists
  them. Numbers are only ever tested for being falsy, and are integers here.
  Properties inherited from \<^verbatim>\<open>Object.prototype\<close> are left out.
\<close>

datatype jval =
    JUndefined
  | JNull
  | JBool bool
  | JNum int
  | JStr string
  | JArr "jval list"
  | JObj "(string \<times> jval) list"

type_synonym obj = "(string \<times> jval) list"

text \<open>
  A property key that is an array index (the canonical decimal form of a number below
  \<open>2^32 - 1\<close>) is listed before every other key, in ascending order.
\<close>

definition isDigit :: "char \<Rightarrow> bool" where
  "isDigit c = (c \<in> set ''0123456789'')"

definition digitVal :: "char \<Rightarrow> nat" where
  "digitVal c =
     (case map_of [(CHR ''0'', 0), (CHR ''1'', 1), (CHR ''2'', 2), (CHR ''3'', 3), (CHR ''4'', 4),
                   (CHR ''5'', 5), (CHR ''6'', 6), (CHR ''7'', 7), (CHR ''8'', 8), (CHR ''9'', 9)] c of
        Some d \<Rightarrow> d
      | None \<Rightarrow> 0)"

definition natOfDigits :: "string \<Rightarrow> nat" where
  "natOfDigits s = foldl (\<lambda>n c. 10 * n + digitVal c) 0 s"

definition arrayIndex :: "string \<Rightarrow> nat option" where
  "arrayIndex s =
     (if s \<noteq> [] \<and> list_all isDigit s \<and> (s = ''0'' \<or> hd s \<noteq> CHR ''0'')
         \<and> natOfDigits s < 2 ^ 32 - 1
      then Some (natOfDigits s) else None)"

text \<open>\<^verbatim>\<open>o[k]\<close> on an object: \<open>None\<close> when \<open>k\<close> is not an own property.\<close>

definition objGet :: "(string \<times> 'a) list \<Rightarrow> string \<Rightarrow> 'a option" where
  "objGet ob k = map_of ob k"

definition objHas :: "(string \<times> 'a) list \<Rightarrow> string \<Rightarrow> bool" where
  "objHas ob k = (k \<in> set (map fst ob))"

text \<open>\<^verbatim>\<open>delete o[k]\<close>.\<close>

definition objDelete :: "(string \<times> 'a) list \<Rightarrow> string \<Rightarrow> (string \<times> 'a) list" where
  "objDelete ob k = filter (\<lambda>p. fst p \<noteq> k) ob"

text \<open>
  Adding a new property: an array index goes before the first key that is not a smaller
  array index, any other key goes to the end.
\<close>

fun objInsertIndex :: "nat \<Rightarrow> string \<Rightarrow> 'a \<Rightarrow> (string \<times> 'a) list \<Rightarrow> (string \<times> 'a) list" where
  "objInsertIndex i k v [] = [(k, v)]"
| "objInsertIndex i k v (p # ps) =
     (case arrayIndex (fst p) of
        Some j \<Rightarrow> if j < i then p # objInsertIndex i k v ps else (k, v) # p # ps
      | None \<Rightarrow> (k, v) # p # ps)"

text \<open>\<^verbatim>\<open>o[k] = v\<close>: an existing property keeps its place.\<close>

definition objSet :: "(string \<times> 'a) list \<Rightarrow> string \<Rightarrow> 'a \<Rightarrow> (string \<times> 'a) list" where
  "objSet ob k v =
     (if objHas ob k then map (\<lambda>p. if fst p = k then (k, v) else p) ob
      else (case arrayIndex k of
              Some i \<Rightarrow> objInsertIndex i k v ob
            | None \<Rightarrow> ob @ [(k, v)]))"

text \<open>\<^verbatim>\<open>{...a, ...b}\<close>: a fresh object that receives the properties of \<open>a\<close>, then those of \<open>b\<close>.\<close>

definition objAssign :: "(string \<times> 'a) list \<Rightarrow> (string \<times> 'a) list \<Rightarrow> (string \<times> 'a) list" where
  "objAssign ob ps = foldl (\<lambda>acc p. objSet acc (fst p) (snd p)) ob ps"

definition spread2 :: "(string \<times> 'a) list \<Rightarrow> (string \<times> 'a) list \<Rightarrow> (string \<times> 'a) list" where
  "spread2 a b = objAssign (objAssign [] a) b"

text \<open>The indexed properties of an array or of a string.\<close>

definition indexed :: "'a list \<Rightarrow> (string \<times> 'a) list" where
  "indexed xs = map (\<lambda>i. (decimal i, xs ! i)) [0 ..< length xs]"

text \<open>\<^verbatim>\<open>Object.entries(v)\<close>.\<close>

definition entriesOf :: "jval \<Rightarrow> obj" where
  "entriesOf v =
     (case v of
        JObj ps \<Rightarrow> ps
      | JArr xs \<Rightarrow> indexed xs
      | JStr s \<Rightarrow> indexed (map (\<lambda>c. JStr [c]) s)
      | _ \<Rightarrow> [])"

text \<open>\<^verbatim>\<open>v.hasOwnProperty(k)\<close>; arrays and strings also own \<^verbatim>\<open>length\<close>.\<close>

definition hasOwnProperty :: "jval \<Rightarrow> string \<Rightarrow> bool" where
  "hasOwnProperty v k =
     (case v of
        JObj ps \<Rightarrow> objHas ps k
      | JArr xs \<Rightarrow> k = ''length'' \<or> (case arrayIndex k of Some i \<Rightarrow> i < length xs | None \<Rightarrow> False)
      | JStr s \<Rightarrow> k = ''length'' \<or> (case arrayIndex k of Some i \<Rightarrow> i < length s | None \<Rightarrow> False)
      | _ \<Rightarrow> False)"

text \<open>\<^verbatim>\<open>v.state\<close>: only an object can hold a property of that name.\<close>

definition stateOf :: "jval \<Rightarrow> jval" where
  "stateOf v =
     (case v of
        JObj ps \<Rightarrow> (case objGet ps ''state'' of Some x \<Rightarrow> x | None \<Rightarrow> JUndefined)
      | _ \<Rightarrow> JUndefined)"

text \<open>\<^verbatim>\<open>delete v.state\<close>.\<close>

definition deleteState :: "jval \<Rightarrow> jval" where
  "deleteState v = (case v of JObj ps \<Rightarrow> JObj (objDelete ps ''state'') | _ \<Rightarrow> v)"

text \<open>\<^verbatim>\<open>!v\<close>.\<close>

definition falsy :: "jval \<Rightarrow> bool" where
  "falsy v =
     (case v of
        JUndefined \<Rightarrow> True
      | JNull \<Rightarrow> True
      | JBool b \<Rightarrow> \<not> b
      | JNum n \<Rightarrow> n = 0
      | JStr s \<Rightarrow> s = []
      | _ \<Rightarrow> False)"

section \<open>Devices, groups, converters\<close>

text \<open>
  The objects of the Zigbee layer, reduced to the fields the extension reads. A converter
  is an object of the converter library; \<open>ref\<close> stands for its identity, which is what
  \<^verbatim>\<open>Array.prototype.includes\<close> and \<^verbatim>\<open>Set.prototype.add\<close> compare. Its two operations talk
  to the network: they take and return the state \<open>'w\<close> of the world outside, and either
  raise an \<^verbatim>\<open>Error\<close> or return.
\<close>

datatype error = Error string string

record zhEndpoint =
  epID :: nat
  deviceIeeeAddr :: string

record zhDevice =
  ieeeAddr :: string
  modelID :: string
  endpointIDs :: "nat list"

record zhGroup =
  groupID :: nat
  members :: "zhEndpoint list"

datatype target = Endpoint zhEndpoint | Group zhGroup

text \<open>\<^verbatim>\<open>resolvedEntity.settings\<close>; \<open>optimistic\<close> and \<open>filtered_optimistic\<close> may be absent.\<close>

record entitySettings =
  settingsID :: string
  optimistic :: "bool option"
  filtered_optimistic :: "string list option"
  retrieve_state :: bool

text \<open>
  The \<^verbatim>\<open>meta\<close> object a converter receives. \<open>mapped\<close> holds the model names of the
  definition (of the definitions, for a group) instead of the objects.
\<close>

record meta =
  endpoint_name :: string
  options :: entitySettings
  message :: obj
  device :: "zhDevice option"
  state :: obj
  membersState :: "(string \<times> obj option) list option"
  mapped :: "string list"

text \<open>What \<^verbatim>\<open>convertSet\<close> resolves to, when it is not \<^verbatim>\<open>undefined\<close>.\<close>

record convResult =
  resultState :: "obj option"
  resultMembersState :: "(string \<times> obj) list option"
  readAfterWriteTime :: "nat option"

record 'w converter =
  ref :: nat
  key :: "string list"
  convertSet :: "('w \<Rightarrow> target \<Rightarrow> string \<Rightarrow> jval \<Rightarrow> meta \<Rightarrow> (error + convResult option) \<times> 'w) option"
  convertGet :: "('w \<Rightarrow> target \<Rightarrow> string \<Rightarrow> meta \<Rightarrow> (error + unit) \<times> 'w) option"

text \<open>
  A device definition of the converter library; \<open>defEndpoint\<close> is its optional
  \<^verbatim>\<open>endpoint(device)\<close> function from endpoint names to endpoint numbers.
\<close>

record 'w deviceDefinition =
  model :: string
  toZigbee :: "'w converter list"
  defEndpoint :: "(zhDevice \<Rightarrow> (string \<times> nat) list) option"

text \<open>
  What \<^verbatim>\<open>this.zigbee.resolveEntity\<close> returns: name, settings and, for a device, the
  device, the endpoint and the definition when the device is supported.
\<close>

datatype 'w resolvedEntity =
    Device string entitySettings zhDevice zhEndpoint "'w deviceDefinition option"
  | GroupEntity string entitySettings zhGroup

fun entityName :: "'w resolvedEntity \<Rightarrow> string" where
  "entityName (Device nm se dev ep d) = nm"
| "entityName (GroupEntity nm se g) = nm"

fun entitySettingsOf :: "'w resolvedEntity \<Rightarrow> entitySettings" where
  "entitySettingsOf (Device nm se dev ep d) = se"
| "entitySettingsOf (GroupEntity nm se g) = se"

fun isDevice :: "'w resolvedEntity \<Rightarrow> bool" where
  "isDevice (Device nm se dev ep d) = True"
| "isDevice (GroupEntity nm se g) = False"

text \<open>\<^verbatim>\<open>device.getEndpoint(ID)\<close>; the number may be \<^verbatim>\<open>undefined\<close>.\<close>

definition getEndpoint :: "zhDevice \<Rightarrow> nat option \<Rightarrow> zhEndpoint option" where
  "getEndpoint dev i =
     (case i of
        None \<Rightarrow> None
      | Some n \<Rightarrow> if n \<in> set (endpointIDs dev)
                  then Some \<lparr>epID = n, deviceIeeeAddr = ieeeAddr dev\<rparr> else None)"

text \<open>
  The converters of \<^verbatim>\<open>zigbeeHerdsmanConverters.toZigbeeConverters\<close> that lines 13 to 27 name.
  The library is not part of the sources at hand: the table is a parameter.
\<close>

record 'w toZigbeeTable =
  light_onoff_brightness :: "'w converter"
  light_color_colortemp :: "'w converter"
  effect :: "'w converter"
  ignore_transition :: "'w converter"
  cover_position_tilt :: "'w converter"
  thermostat_occupied_heating_setpoint :: "'w converter"
  tint_scene :: "'w converter"
  light_brightness_move :: "'w converter"
  light_brightness_step :: "'w converter"
  light_colortemp_step :: "'w converter"
  light_colortemp_move :: "'w converter"
  light_hue_saturation_move :: "'w converter"
  light_hue_saturation_step :: "'w converter"

definition defaultGroupConverters :: "'w toZigbeeTable \<Rightarrow> 'w converter list" where
  "defaultGroupConverters lib =
     [light_onoff_brightness lib,
      light_color_colortemp lib,
      effect lib,
      ignore_transition lib,
      cover_position_tilt lib,
      thermostat_occupied_heating_setpoint lib,
      tint_scene lib,
      light_brightness_move lib,
      light_brightness_step lib,
      light_colortemp_step lib,
      light_colortemp_move lib,
      light_hue_saturation_move lib,
      light_hue_saturation_step lib]"

text \<open>
  Settings, collaborators and built-ins. \<open>jsonParse\<close> is \<^verbatim>\<open>JSON.parse\<close> (\<open>None\<close> when it
  throws) and \<open>arraySort\<close> is \<^verbatim>\<open>Array.prototype.sort\<close> of the engine, given the compare
  function.
\<close>

record 'w env =
  base_topic :: string
  legacy_api :: bool
  homeassistant :: bool
  endpointNames :: "string list"
  toZigbeeConverters :: "'w toZigbeeTable"
  jsonParse :: "string \<Rightarrow> jval option"
  arraySort :: "((string \<times> jval) \<Rightarrow> (string \<times> jval) \<Rightarrow> int) \<Rightarrow> obj \<Rightarrow> obj"
  resolveEntity :: "string \<Rightarrow> 'w resolvedEntity option"
  findByDevice :: "zhDevice \<Rightarrow> 'w deviceDefinition option"
  getDevice :: "zhEndpoint \<Rightarrow> zhDevice"
  stateGet :: "string \<Rightarrow> obj option"

section \<open>What a message does\<close>

text \<open>
  Everything \<^verbatim>\<open>onMQTTMessage\<close> does to the outside is an event, in the order it happens.
  Log lines keep the parts of the text that vary. The first field of a converter call is
  the \<^verbatim>\<open>endpointOrGroupID\<close> under which the call is booked, the second the converter.
\<close>

datatype logLine =
    EntityUnknown string
  | DeviceNotSupported string
  | SeeSupportPage
  | InvalidJSON string
  | SkippingState
  | NoEndpoint string string
  | NoConverter string
  | Publishing cmdtype string string
  | NoConverterFor cmdtype string
  | PublishFailed cmdtype string string error
  | ErrorStack error

datatype level = LError | LWarn | LDebug

datatype diagnostic =
    EntityNotFoundRecord string
  | ZigbeePublishErrorRecord logLine string

datatype event =
    Log level logLine
  | MqttPublish string diagnostic
  | ConvertSetCall string nat target string jval meta
  | ConvertGetCall string nat target string meta
  | SetTimeout nat nat target string meta
  | PublishEntityState string obj

text \<open>How the function ends: each return statement, the value it returns, or an exception.\<close>

datatype outcome =
    TopicIgnored
  | EntityNotFound
  | UnsupportedDevice
  | InvalidPayload
  | FalsyPayload
  | Completed
  | Threw error

fun returnValue :: "outcome \<Rightarrow> jval" where
  "returnValue TopicIgnored = JBool False"
| "returnValue InvalidPayload = JBool False"
| "returnValue Completed = JBool True"
| "returnValue _ = JUndefined"

subsection \<open>Group converters\<close>

text \<open>\<^verbatim>\<open>converters.add(c)\<close> on a \<^verbatim>\<open>Set\<close>, kept in insertion order.\<close>

definition setAdd :: "'w converter list \<Rightarrow> 'w converter \<Rightarrow> 'w converter list" where
  "setAdd cs c = (if ref c \<in> set (map ref cs) then cs else cs @ [c])"

definition groupDefinitions :: "'w env \<Rightarrow> zhGroup \<Rightarrow> 'w deviceDefinition list" where
  "groupDefinitions env g = List.map_filter (\<lambda>e. findByDevice env (getDevice env e)) (members g)"

definition groupConverters :: "'w env \<Rightarrow> 'w deviceDefinition list \<Rightarrow> 'w converter list" where
  "groupConverters env defs =
     (let converters = foldl (\<lambda>cs d. foldl setAdd cs (toZigbee d)) [] defs
      in if converters \<noteq> [] then converters else defaultGroupConverters (toZigbeeConverters env))"

definition groupMembersState :: "'w env \<Rightarrow> zhGroup \<Rightarrow> (string \<times> obj option) list" where
  "groupMembersState env g =
     foldl (\<lambda>ms e. objSet ms (ieeeAddr (getDevice env e)) (stateGet env (ieeeAddr (getDevice env e))))
       [] (members g)"

subsection \<open>Decoding the payload\<close>

definition stateValues :: "string list" where
  "stateValues = [''on'', ''off'', ''toggle'', ''open'', ''close'', ''stop'', ''lock'', ''unlock'']"

definition decodePayload :: "'w env \<Rightarrow> topicDescriptor \<Rightarrow> string \<Rightarrow> outcome + jval" where
  "decodePayload env topic raw =
     (case (case (case attribute topic of
                    None \<Rightarrow> None
                  | Some a \<Rightarrow> if a = [] then None else Some a) of
              Some a \<Rightarrow>
                (case jsonParse env raw of
                   Some v \<Rightarrow> Inr (JObj (objSet [] a v))
                 | None \<Rightarrow> Inr (JObj (objSet [] a (JStr raw))))
            | None \<Rightarrow>
                (case jsonParse env raw of
                   Some v \<Rightarrow> Inr v
                 | None \<Rightarrow>
                     if toLowerCase raw \<in> set stateValues
                     then Inr (JObj [(''state'', JStr raw)])
                     else Inl InvalidPayload)) of
        Inl e \<Rightarrow> Inl e
      | Inr json \<Rightarrow> if falsy json then Inl FalsyPayload else Inr json)"

text \<open>Lines 135 to 144, the Home Assistant rule: whether \<open>state\<close> is dropped from the map.\<close>

definition skipState :: "'w env \<Rightarrow> obj \<Rightarrow> jval \<Rightarrow> bool" where
  "skipState env entityState json =
     (homeassistant env
      \<and> objGet entityState ''state'' = Some (JStr ''ON'')
      \<and> (hasOwnProperty json ''color_temp'' \<or> hasOwnProperty json ''color'')
      \<and> \<not> hasOwnProperty json ''brightness'')"

subsection \<open>Ordering the attributes\<close>

definition sorter :: "jval \<Rightarrow> int" where
  "sorter json =
     (case stateOf json of
        JStr s \<Rightarrow> if toLowerCase s = ''off'' then 1 else - 1
      | _ \<Rightarrow> - 1)"

definition compareEntries :: "jval \<Rightarrow> (string \<times> jval) \<Rightarrow> (string \<times> jval) \<Rightarrow> int" where
  "compareEntries json a b =
     (if fst a \<in> set [''state'', ''brightness'', ''brightness_percent'']
      then sorter json else sorter json * - 1)"

definition orderedEntries :: "'w env \<Rightarrow> jval \<Rightarrow> obj" where
  "orderedEntries env json = arraySort env (compareEntries json) (entriesOf json)"

subsection \<open>Endpoint names inside attribute names\<close>

text \<open>
  \<^verbatim>\<open>key.replace(new RegExp(`(_${endpointNameMatch})$`, 'gm'), ``)\<close>, with \<open>p\<close> the underscore
  and the name: under the flags \<^verbatim>\<open>gm\<close> every occurrence of \<open>p\<close> that ends a line is removed.
\<close>

definition atLineEnd :: "string \<Rightarrow> bool" where
  "atLineEnd s = (case s of [] \<Rightarrow> True | c # cs \<Rightarrow> isLineTerminator c)"

function stripAtLineEnds :: "string \<Rightarrow> string \<Rightarrow> string" where
  "stripAtLineEnds p [] = []"
| "stripAtLineEnds p (c # cs) =
     (if p \<noteq> [] \<and> startsWith (c # cs) p \<and> atLineEnd (drop (length p) (c # cs))
      then stripAtLineEnds p (drop (length p) (c # cs))
      else c # stripAtLineEnds p cs)"
  by pat_completeness auto
termination
  by (relation "measure (\<lambda>(p, s). length s)") auto

text \<open>
  Lines 173 to 188: what an attribute name that holds an endpoint name does to the target.
\<close>

datatype retarget =
    Unchanged
  | Retargeted string string zhEndpoint
  | NoSuchEndpoint string
  | RetargetThrew error

definition retargetKey :: "'w env \<Rightarrow> 'w resolvedEntity \<Rightarrow> string \<Rightarrow> retarget" where
  "retargetKey env re k =
     (case re of
        GroupEntity nm se g \<Rightarrow> Unchanged
      | Device nm se dev ep d \<Rightarrow>
          if CHR ''_'' \<in> set k
          then (case find (\<lambda>n. endsWith k (CHR ''_'' # n)) (endpointNames env) of
                  None \<Rightarrow> Unchanged
                | Some n \<Rightarrow>
                    if n = [] then Unchanged
                    else (case (case d of None \<Rightarrow> None | Some df \<Rightarrow> defEndpoint df) of
                            None \<Rightarrow>
                              RetargetThrew (Error ''TypeError'' ''definition.endpoint is not a function'')
                          | Some f \<Rightarrow>
                              (case getEndpoint (getDevice env ep) (objGet (f (getDevice env ep)) n) of
                                 None \<Rightarrow> NoSuchEndpoint n
                               | Some e \<Rightarrow> Retargeted n (stripAtLineEnds (CHR ''_'' # n) k) e)))
          else Unchanged)"

text \<open>Lines 217 to 225: the copy of the message a converter sees.\<close>

definition stripMessage :: "string \<Rightarrow> obj \<Rightarrow> obj" where
  "stripMessage epn msg =
     (if epn = [] then msg
      else foldl (\<lambda>m p. if endsWith (fst p) epn
                         then objSet (objDelete m (fst p))
                                (take (length (fst p) - length epn - 1) (fst p)) (snd p)
                         else m) msg msg)"

text \<open>Lines 235 to 240: the endpoint name goes back onto the keys of the new state.\<close>

definition resuffix :: "string \<Rightarrow> obj \<Rightarrow> obj" where
  "resuffix epn msg =
     foldl (\<lambda>m k. objDelete
                    (objSet m (k @ ''_'' @ epn) (case objGet m k of Some v \<Rightarrow> v | None \<Rightarrow> JUndefined))
                    k) msg (map fst msg)"

subsection \<open>The dispatch loop\<close>

record 'w dispatchCtx =
  ctxTopic :: topicDescriptor
  ctxEntity :: "'w resolvedEntity"
  ctxConverters :: "'w converter list"
  ctxTarget :: target
  ctxDevice :: "zhDevice option"
  ctxMapped :: "string list"
  ctxMembersState :: "(string \<times> obj option) list option"
  ctxEntityState :: obj
  ctxJson :: jval

text \<open>
  The variables the loop changes, the events so far, the world, and the exception that
  left the loop, if one did.
\<close>

record 'w loopState =
  usedConverters :: "string \<Rightarrow> nat list option"
  toPublish :: "(string \<times> obj) list"
  events :: "event list"
  world :: 'w
  thrown :: "error option"

text \<open>
  Line 190: the converters booked under an identifier, an identifier without entry
  standing for the empty list it is given.
\<close>

definition usedList :: "'w loopState \<Rightarrow> string \<Rightarrow> nat list" where
  "usedList st eid = (case usedConverters st eid of None \<Rightarrow> [] | Some l \<Rightarrow> l)"

definition targetID :: "target \<Rightarrow> string" where
  "targetID t = (case t of Group g \<Rightarrow> decimal (groupID g) | Endpoint e \<Rightarrow> decimal (epID e))"

definition addToToPublish :: "(string \<times> obj) list \<Rightarrow> string \<Rightarrow> obj \<Rightarrow> (string \<times> obj) list" where
  "addToToPublish tp i payload =
     (let tp1 = (if objHas tp i then tp else objSet tp i [])
      in objSet tp1 i (spread2 (case objGet tp1 i of Some old \<Rightarrow> old | None \<Rightarrow> []) payload))"

definition makeMeta :: "'w dispatchCtx \<Rightarrow> string \<Rightarrow> meta" where
  "makeMeta cx epn =
     \<lparr>endpoint_name = epn,
      options = entitySettingsOf (ctxEntity cx),
      message = stripMessage epn (spread2 [] (entriesOf (ctxJson cx))),
      device = ctxDevice cx,
      state = ctxEntityState cx,
      membersState = ctxMembersState cx,
      mapped = ctxMapped cx\<rparr>"

text \<open>Lines 233 to 249: the state a successful write predicts, as it is added to the buffer.\<close>

definition optimisticState :: "entitySettings \<Rightarrow> string \<Rightarrow> obj \<Rightarrow> obj" where
  "optimisticState opts epn msg =
     (let msg1 = (if epn \<noteq> [] then resuffix epn msg else msg)
      in case filtered_optimistic opts of
           None \<Rightarrow> msg1
         | Some as \<Rightarrow> foldl objDelete msg1 as)"

definition isOptimistic :: "entitySettings \<Rightarrow> bool" where
  "isOptimistic opts = (case optimistic opts of None \<Rightarrow> True | Some b \<Rightarrow> b)"

text \<open>Lines 231 to 270: what happens with the result of a write that returned.\<close>

definition applyResult ::
  "'w dispatchCtx \<Rightarrow> 'w converter \<Rightarrow> meta \<Rightarrow> string \<Rightarrow> target \<Rightarrow> string \<Rightarrow>
   'w loopState \<Rightarrow> convResult option \<Rightarrow> 'w loopState" where
  "applyResult cx c m epn actualTarget k st result =
     (let opts = entitySettingsOf (ctxEntity cx);
          tp1 = (case (case result of None \<Rightarrow> None | Some r \<Rightarrow> resultState r) of
                   None \<Rightarrow> toPublish st
                 | Some msg \<Rightarrow>
                     if isOptimistic opts \<and> optimisticState opts epn msg \<noteq> []
                     then addToToPublish (toPublish st) (settingsID opts) (optimisticState opts epn msg)
                     else toPublish st);
          tp2 = (case (case result of None \<Rightarrow> None | Some r \<Rightarrow> resultMembersState r) of
                   None \<Rightarrow> tp1
                 | Some ms \<Rightarrow>
                     if isOptimistic opts
                     then foldl (\<lambda>tp p. addToToPublish tp (fst p) (snd p)) tp1 ms
                     else tp1);
          timers = (case (case result of None \<Rightarrow> None | Some r \<Rightarrow> readAfterWriteTime r) of
                      None \<Rightarrow> []
                    | Some t \<Rightarrow>
                        if isDevice (ctxEntity cx) \<and> retrieve_state opts
                        then [SetTimeout t (ref c) actualTarget k m] else [])
      in st\<lparr>toPublish := tp2, events := events st @ timers\<rparr>)"

text \<open>Lines 278 to 292: the handler of the \<^verbatim>\<open>try\<close> block.\<close>

definition catchError :: "'w env \<Rightarrow> 'w dispatchCtx \<Rightarrow> string \<Rightarrow> 'w loopState \<Rightarrow> error \<Rightarrow> 'w loopState" where
  "catchError env cx k st err =
     (let line = PublishFailed (type (ctxTopic cx)) k (entityName (ctxEntity cx)) err
      in st\<lparr>events := events st @ [Log LError line, Log LDebug (ErrorStack err)]
              @ (if legacy_api env
                 then [MqttPublish ''bridge/log'' (ZigbeePublishErrorRecord line (entityName (ctxEntity cx)))]
                 else [])\<rparr>)"

text \<open>Line 294.\<close>

definition pushUsed :: "string \<Rightarrow> 'w converter \<Rightarrow> 'w loopState \<Rightarrow> 'w loopState" where
  "pushUsed eid c st =
     st\<lparr>usedConverters := (usedConverters st)(eid \<mapsto> usedList st eid @ [ref c])\<rparr>"

text \<open>Lines 227 to 294: the \<^verbatim>\<open>try\<close> statement and what follows it.\<close>

definition runConverter ::
  "'w env \<Rightarrow> 'w dispatchCtx \<Rightarrow> 'w converter \<Rightarrow> meta \<Rightarrow> string \<Rightarrow> target \<Rightarrow> string \<Rightarrow>
   string \<Rightarrow> jval \<Rightarrow> 'w loopState \<Rightarrow> 'w loopState" where
  "runConverter env cx c m epn actualTarget eid k v st =
     (case (if type (ctxTopic cx) = Set then convertSet c else None) of
        Some write \<Rightarrow>
          (let st1 = st\<lparr>events := events st
                        @ [Log LDebug (Publishing Set k (entityName (ctxEntity cx))),
                           ConvertSetCall eid (ref c) actualTarget k v m]\<rparr>;
               r = write (world st) actualTarget k v m;
               st2 = st1\<lparr>world := snd r\<rparr>
           in pushUsed eid c
                (case fst r of
                   Inl err \<Rightarrow> catchError env cx k st2 err
                 | Inr result \<Rightarrow> applyResult cx c m epn actualTarget k st2 result))
      | None \<Rightarrow>
          (case (if type (ctxTopic cx) = Get then convertGet c else None) of
             Some read \<Rightarrow>
               (let st1 = st\<lparr>events := events st
                             @ [Log LDebug (Publishing Get k (entityName (ctxEntity cx))),
                                ConvertGetCall eid (ref c) actualTarget k m]\<rparr>;
                    r = read (world st) actualTarget k m;
                    st2 = st1\<lparr>world := snd r\<rparr>
                in pushUsed eid c
                     (case fst r of
                        Inl err \<Rightarrow> catchError env cx k st2 err
                      | Inr u \<Rightarrow> st2))
           | None \<Rightarrow>
               st\<lparr>events := events st @ [Log LError (NoConverterFor (type (ctxTopic cx)) k)]\<rparr>))"

text \<open>Lines 190 to 294, for the target and the key that lines 168 to 188 chose.\<close>

definition convertAttribute ::
  "'w env \<Rightarrow> 'w dispatchCtx \<Rightarrow> 'w loopState \<Rightarrow> string \<Rightarrow> target \<Rightarrow> string \<Rightarrow>
   string \<Rightarrow> jval \<Rightarrow> 'w loopState" where
  "convertAttribute env cx st epn actualTarget eid k v =
     (let st1 = st\<lparr>usedConverters := (usedConverters st)(eid \<mapsto> usedList st eid)\<rparr>
      in case find (\<lambda>c. k \<in> set (key c)) (ctxConverters cx) of
           None \<Rightarrow> st1\<lparr>events := events st1 @ [Log LError (NoConverter k)]\<rparr>
         | Some c \<Rightarrow>
             if type (ctxTopic cx) = Set \<and> ref c \<in> set (usedList st eid)
             then st1
             else runConverter env cx c (makeMeta cx epn) epn actualTarget eid k v st1)"

text \<open>One turn of the loop of lines 167 to 295.\<close>

definition attributeStep ::
  "'w env \<Rightarrow> 'w dispatchCtx \<Rightarrow> 'w loopState \<Rightarrow> string \<times> jval \<Rightarrow> 'w loopState" where
  "attributeStep env cx st kv =
     (case retargetKey env (ctxEntity cx) (fst kv) of
        Unchanged \<Rightarrow>
          convertAttribute env cx st (endpointName (ctxTopic cx)) (ctxTarget cx)
            (targetID (ctxTarget cx)) (fst kv) (snd kv)
      | Retargeted n k e \<Rightarrow> convertAttribute env cx st n (Endpoint e) n k (snd kv)
      | NoSuchEndpoint n \<Rightarrow>
          st\<lparr>events := events st @ [Log LError (NoEndpoint (entityName (ctxEntity cx)) n)]\<rparr>
      | RetargetThrew err \<Rightarrow> st\<lparr>thrown := Some err\<rparr>)"

fun dispatchLoop ::
  "'w env \<Rightarrow> 'w dispatchCtx \<Rightarrow> 'w loopState \<Rightarrow> obj \<Rightarrow> 'w loopState" where
  "dispatchLoop env cx st [] = st"
| "dispatchLoop env cx st (kv # rest) =
     (let st1 = attributeStep env cx st kv
      in if thrown st1 = None then dispatchLoop env cx st1 rest else st1)"

text \<open>Lines 297 to 299.\<close>

definition flush :: "(string \<times> obj) list \<Rightarrow> event list" where
  "flush tp = map (\<lambda>p. PublishEntityState (fst p) (snd p)) tp"

subsection \<open>The whole message\<close>

text \<open>Lines 68 to 102: converters, target, device, definitions and the state of the members.\<close>

definition entityDetails ::
  "'w env \<Rightarrow> 'w resolvedEntity \<Rightarrow>
   ('w converter list \<times> target \<times> zhDevice option \<times> string list \<times> (string \<times> obj option) list option) option" where
  "entityDetails env re =
     (case re of
        Device nm se dev ep d \<Rightarrow>
          (case d of
             None \<Rightarrow> None
           | Some df \<Rightarrow> Some (toZigbee df, Endpoint ep, Some dev, [model df], None))
      | GroupEntity nm se g \<Rightarrow>
          Some (groupConverters env (groupDefinitions env g), Group g, None,
                map model (groupDefinitions env g), Some (groupMembersState env g)))"

definition entityModelID :: "'w resolvedEntity \<Rightarrow> string" where
  "entityModelID re = (case re of Device nm se dev ep d \<Rightarrow> modelID dev | GroupEntity nm se g \<Rightarrow> [])"

text \<open>Line 51.\<close>

definition entityKey :: "topicDescriptor \<Rightarrow> string" where
  "entityKey topic =
     ID topic @ (if endpointName topic \<noteq> [] then CHR ''/'' # endpointName topic else [])"

text \<open>Lines 134 to 144: the stored state, and the map after the Home Assistant rule.\<close>

definition entityStateOf :: "'w env \<Rightarrow> 'w resolvedEntity \<Rightarrow> obj" where
  "entityStateOf env re =
     (case stateGet env (settingsID (entitySettingsOf re)) of None \<Rightarrow> [] | Some s \<Rightarrow> s)"

definition adjusted :: "'w env \<Rightarrow> 'w resolvedEntity \<Rightarrow> jval \<Rightarrow> jval" where
  "adjusted env re json0 =
     (if skipState env (entityStateOf env re) json0 then deleteState json0 else json0)"

text \<open>What the loop starts from, and what is left to do after it.\<close>

definition contextOf ::
  "'w env \<Rightarrow> topicDescriptor \<Rightarrow> 'w resolvedEntity \<Rightarrow>
   'w converter list \<times> target \<times> zhDevice option \<times> string list \<times> (string \<times> obj option) list option \<Rightarrow>
   jval \<Rightarrow> 'w dispatchCtx" where
  "contextOf env topic re d json0 =
     \<lparr>ctxTopic = topic, ctxEntity = re,
      ctxConverters = fst d,
      ctxTarget = fst (snd d),
      ctxDevice = fst (snd (snd d)),
      ctxMapped = fst (snd (snd (snd d))),
      ctxMembersState = snd (snd (snd (snd d))),
      ctxEntityState = entityStateOf env re,
      ctxJson = adjusted env re json0\<rparr>"

definition loopStart :: "bool \<Rightarrow> 'w \<Rightarrow> 'w loopState" where
  "loopStart skip w =
     \<lparr>usedConverters = Map.empty, toPublish = [],
      events = (if skip then [Log LDebug SkippingState] else []),
      world = w, thrown = None\<rparr>"

definition finish :: "'w loopState \<Rightarrow> outcome \<times> event list \<times> 'w" where
  "finish st =
     (case thrown st of
        Some err \<Rightarrow> (Threw err, events st, world st)
      | None \<Rightarrow> (Completed, events st @ flush (toPublish st), world st))"

definition onMQTTMessage ::
  "'w env \<Rightarrow> string \<Rightarrow> string \<Rightarrow> 'w \<Rightarrow> outcome \<times> event list \<times> 'w" where
  "onMQTTMessage env topicStr raw w =
     (case parseTopic (base_topic env) (endpointNames env) topicStr of
        None \<Rightarrow> (TopicIgnored, [], w)
      | Some topic \<Rightarrow>
          (case resolveEntity env (entityKey topic) of
             None \<Rightarrow>
               (EntityNotFound,
                (if legacy_api env
                 then [MqttPublish ''bridge/log'' (EntityNotFoundRecord (entityKey topic))] else [])
                @ [Log LError (EntityUnknown (entityKey topic))], w)
           | Some re \<Rightarrow>
               (case entityDetails env re of
                  None \<Rightarrow>
                    (UnsupportedDevice,
                     [Log LWarn (DeviceNotSupported (entityModelID re)), Log LWarn SeeSupportPage], w)
                | Some d \<Rightarrow>
                    (case decodePayload env topic raw of
                       Inl oc \<Rightarrow> (oc, [Log LError (InvalidJSON raw)], w)
                     | Inr json0 \<Rightarrow>
                         finish
                           (dispatchLoop env (contextOf env topic re d json0)
                              (loopStart (skipState env (entityStateOf env re) json0) w)
                              (orderedEntries env (adjusted env re json0)))))))"

subsection \<open>Reading the events\<close>

fun isConverterCall :: "event \<Rightarrow> bool" where
  "isConverterCall (ConvertSetCall eid r t k v m) = True"
| "isConverterCall (ConvertGetCall eid r t k m) = True"
| "isConverterCall _ = False"

fun isStatePublish :: "event \<Rightarrow> bool" where
  "isStatePublish (PublishEntityState i p) = True"
| "isStatePublish _ = False"

fun isDiagnosticPublish :: "event \<Rightarrow> bool" where
  "isDiagnosticPublish (MqttPublish t d) = True"
| "isDiagnosticPublish _ = False"

text \<open>The calls of converter \<open>r\<close> that are booked under the identifier \<open>eid\<close>.\<close>

fun isCallOf :: "string \<Rightarrow> nat \<Rightarrow> event \<Rightarrow> bool" where
  "isCallOf eid r (ConvertSetCall i c t k v m) = (i = eid \<and> c = r)"
| "isCallOf eid r (ConvertGetCall i c t k m) = (i = eid \<and> c = r)"
| "isCallOf eid r _ = False"

text \<open>
  What lines 168 to 188 choose for an attribute name, when they neither skip the attribute
  nor throw: endpoint name, target, \<^verbatim>\<open>endpointOrGroupID\<close> and key.
\<close>

definition routed ::
  "'w env \<Rightarrow> 'w dispatchCtx \<Rightarrow> string \<Rightarrow> (string \<times> target \<times> string \<times> string) option" where
  "routed env cx k0 =
     (case retargetKey env (ctxEntity cx) k0 of
        Unchanged \<Rightarrow>
          Some (endpointName (ctxTopic cx), ctxTarget cx, targetID (ctxTarget cx), k0)
      | Retargeted n k e \<Rightarrow> Some (n, Endpoint e, n, k)
      | NoSuchEndpoint n \<Rightarrow> None
      | RetargetThrew err \<Rightarrow> None)"


subsection \<open>The shape of a topic\<close>



section \<open>The sort of the engine\<close>

text \<open>
  \<^verbatim>\<open>Array.prototype.sort\<close> is a built-in of the engine. The compare function of line 157
  looks at its first argument only and never returns 0, so it is not a consistent
  comparison, and the language then leaves the order of the result to the engine.
  Node.js runs on V8, whose two algorithms for short arrays are these.

  Up to V8 6.x, an array of at most 10 elements is sorted by \<^verbatim>\<open>InsertionSort\<close>: each
  element moves left past every element \<open>t\<close> with \<^verbatim>\<open>comparefn(t, element) > 0\<close>. The sorted
  part is kept in reverse here.
\<close>

fun insertLeft :: "('a \<Rightarrow> 'a \<Rightarrow> int) \<Rightarrow> 'a \<Rightarrow> 'a list \<Rightarrow> 'a list" where
  "insertLeft cmp x [] = [x]"
| "insertLeft cmp x (t # ts) = (if cmp t x > 0 then t # insertLeft cmp x ts else x # t # ts)"

definition insertionSortV8 :: "('a \<Rightarrow> 'a \<Rightarrow> int) \<Rightarrow> 'a list \<Rightarrow> 'a list" where
  "insertionSortV8 cmp xs = rev (foldl (\<lambda>sorted x. insertLeft cmp x sorted) [] xs)"

text \<open>
  From V8 7.0 on, an array of fewer than 64 elements is one run of TimSort:
  \<^verbatim>\<open>CountAndMakeRun\<close> finds the run the array starts with, comparing each element with the
  one before it, and reverses the run when it descends; \<^verbatim>\<open>BinaryInsertionSort\<close> then
  inserts the other elements one by one.
\<close>

fun countRun :: "('a \<Rightarrow> 'a \<Rightarrow> int) \<Rightarrow> bool \<Rightarrow> 'a \<Rightarrow> 'a list \<Rightarrow> nat" where
  "countRun cmp descending previous [] = 0"
| "countRun cmp descending previous (x # xs) =
     (if (if descending then cmp x previous \<ge> 0 else cmp x previous < 0) then 0
      else Suc (countRun cmp descending x xs))"

definition countAndMakeRun :: "('a \<Rightarrow> 'a \<Rightarrow> int) \<Rightarrow> 'a list \<Rightarrow> nat \<times> 'a list" where
  "countAndMakeRun cmp xs =
     (case xs of
        [] \<Rightarrow> (0, xs)
      | x # ys \<Rightarrow>
          (case ys of
             [] \<Rightarrow> (1, xs)
           | y # zs \<Rightarrow>
               (let descending = (cmp y x < 0);
                    runLength = 2 + countRun cmp descending y zs
                in (runLength,
                    if descending then rev (take runLength xs) @ drop runLength xs else xs))))"

function binarySearch :: "('a \<Rightarrow> 'a \<Rightarrow> int) \<Rightarrow> 'a \<Rightarrow> 'a list \<Rightarrow> nat \<Rightarrow> nat \<Rightarrow> nat" where
  "binarySearch cmp pivot xs left right =
     (if left < right
      then (if cmp pivot (xs ! (left + (right - left) div 2)) < 0
            then binarySearch cmp pivot xs left (left + (right - left) div 2)
            else binarySearch cmp pivot xs (left + (right - left) div 2 + 1) right)
      else left)"
  by pat_completeness auto
termination
  by (relation "measure (\<lambda>(cmp, pivot, xs, left, right). right - left)") auto

declare binarySearch.simps [simp del]

definition binaryInsert :: "('a \<Rightarrow> 'a \<Rightarrow> int) \<Rightarrow> 'a list \<Rightarrow> nat \<Rightarrow> 'a list" where
  "binaryInsert cmp xs start =
     (let left = binarySearch cmp (xs ! start) xs 0 start
      in take left xs @ [xs ! start] @ drop left (take start xs) @ drop (Suc start) xs)"

definition timSortShortV8 :: "('a \<Rightarrow> 'a \<Rightarrow> int) \<Rightarrow> 'a list \<Rightarrow> 'a list" where
  "timSortShortV8 cmp xs =
     (if length xs < 2 then xs
      else foldl (binaryInsert cmp) (snd (countAndMakeRun cmp xs))
             [fst (countAndMakeRun cmp xs) ..< length xs])"

section \<open>The order the specification asks for\<close>

text \<open>
  In the words of the specification: the rank of an attribute is \<open>sorter\<close> for \<open>state\<close>,
  \<open>brightness\<close> and \<open>brightness_percent\<close> and \<open>- sorter\<close> for any other name; the
  attributes are put in ascending rank, those of equal rank in the order they had.
\<close>

definition specRank :: "jval \<Rightarrow> string \<Rightarrow> int" where
  "specRank json k =
     (if k = ''state'' \<or> k = ''brightness'' \<or> k = ''brightness_percent''
      then sorter json else - sorter json)"

definition stableRankOrder :: "jval \<Rightarrow> obj" where
  "stableRankOrder json =
     filter (\<lambda>p. specRank json (fst p) < 0) (entriesOf json)
     @ filter (\<lambda>p. \<not> specRank json (fst p) < 0) (entriesOf json)"

section \<open>An installation to run the model on\<close>

text \<open>
  A bridge with a lamp of two endpoints, a device without definition and a group of one
  member. The world is the number of converter operations carried out so far.
\<close>

definition echoSet :: "nat \<Rightarrow> target \<Rightarrow> string \<Rightarrow> jval \<Rightarrow> meta \<Rightarrow> (error + convResult option) \<times> nat" where
  "echoSet w t k v m =
     (Inr (Some \<lparr>resultState = Some [(k, v)], resultMembersState = None,
                 readAfterWriteTime = None\<rparr>), Suc w)"

definition failingSet :: "nat \<Rightarrow> target \<Rightarrow> string \<Rightarrow> jval \<Rightarrow> meta \<Rightarrow> (error + convResult option) \<times> nat" where
  "failingSet w t k v m = (Inl (Error ''Error'' ''no response''), Suc w)"

text \<open>A write to a group that has nothing to predict for its members.\<close>

definition sceneSet :: "nat \<Rightarrow> target \<Rightarrow> string \<Rightarrow> jval \<Rightarrow> meta \<Rightarrow> (error + convResult option) \<times> nat" where
  "sceneSet w t k v m =
     (Inr (Some \<lparr>resultState = None,
                 resultMembersState =
                   (case membersState m of
                      None \<Rightarrow> None
                    | Some ms \<Rightarrow> Some (map (\<lambda>p. (fst p, [])) ms)),
                 readAfterWriteTime = None\<rparr>), Suc w)"

definition okGet :: "nat \<Rightarrow> target \<Rightarrow> string \<Rightarrow> meta \<Rightarrow> (error + unit) \<times> nat" where
  "okGet w t k m = (Inr (), Suc w)"

definition demoTable :: "nat toZigbeeTable" where
  "demoTable =
     \<lparr>light_onoff_brightness =
        \<lparr>ref = 1, key = [''state'', ''brightness'', ''brightness_percent''],
         convertSet = Some echoSet, convertGet = Some okGet\<rparr>,
      light_color_colortemp =
        \<lparr>ref = 2, key = [''color'', ''color_temp''],
         convertSet = Some failingSet, convertGet = Some okGet\<rparr>,
      effect = \<lparr>ref = 3, key = [''effect''], convertSet = Some echoSet, convertGet = None\<rparr>,
      ignore_transition =
        \<lparr>ref = 4, key = [''transition''], convertSet = Some echoSet, convertGet = None\<rparr>,
      cover_position_tilt =
        \<lparr>ref = 5, key = [''position'', ''tilt''], convertSet = Some echoSet, convertGet = Some okGet\<rparr>,
      thermostat_occupied_heating_setpoint =
        \<lparr>ref = 6, key = [''occupied_heating_setpoint''],
         convertSet = Some echoSet, convertGet = Some okGet\<rparr>,
      tint_scene = \<lparr>ref = 7, key = [''tint_scene''], convertSet = Some sceneSet, convertGet = None\<rparr>,
      light_brightness_move =
        \<lparr>ref = 8, key = [''brightness_move''], convertSet = Some echoSet, convertGet = None\<rparr>,
      light_brightness_step =
        \<lparr>ref = 9, key = [''brightness_step''], convertSet = Some echoSet, convertGet = None\<rparr>,
      light_colortemp_step =
        \<lparr>ref = 10, key = [''color_temp_step''], convertSet = Some echoSet, convertGet = None\<rparr>,
      light_colortemp_move =
        \<lparr>ref = 11, key = [''color_temp_move''], convertSet = Some echoSet, convertGet = None\<rparr>,
      light_hue_saturation_move =
        \<lparr>ref = 12, key = [''hue_move'', ''saturation_move''],
         convertSet = Some echoSet, convertGet = None\<rparr>,
      light_hue_saturation_step =
        \<lparr>ref = 13, key = [''hue_step'', ''saturation_step''],
         convertSet = Some echoSet, convertGet = None\<rparr>\<rparr>"

definition demoSettings :: "string \<Rightarrow> entitySettings" where
  "demoSettings i =
     \<lparr>settingsID = i, optimistic = None, filtered_optimistic = None, retrieve_state = False\<rparr>"

definition lampDevice :: zhDevice where
  "lampDevice = \<lparr>ieeeAddr = ''0x01'', modelID = ''LAMP-2'', endpointIDs = [1, 2]\<rparr>"

definition lampDefinition :: "nat deviceDefinition" where
  "lampDefinition =
     \<lparr>model = ''LAMP-2'',
      toZigbee = [light_onoff_brightness demoTable, light_color_colortemp demoTable],
      defEndpoint = Some (\<lambda>d. [(''left'', 2), (''right'', 3)])\<rparr>"

definition lamp1 :: "nat resolvedEntity" where
  "lamp1 =
     Device ''lamp1'' (demoSettings ''0x01'') lampDevice
       \<lparr>epID = 1, deviceIeeeAddr = ''0x01''\<rparr> (Some lampDefinition)"

definition plug1 :: "nat resolvedEntity" where
  "plug1 =
     Device ''plug1'' (demoSettings ''0x03'')
       \<lparr>ieeeAddr = ''0x03'', modelID = ''PLUG-X'', endpointIDs = [1]\<rparr>
       \<lparr>epID = 1, deviceIeeeAddr = ''0x03''\<rparr> None"

definition group1 :: "nat resolvedEntity" where
  "group1 =
     GroupEntity ''group1'' (demoSettings ''1'')
       \<lparr>groupID = 1, members = [\<lparr>epID = 1, deviceIeeeAddr = ''0x02''\<rparr>]\<rparr>"

text \<open>\<^verbatim>\<open>JSON.parse\<close> on the payloads used below; it throws on any other text.\<close>

definition demoParse :: "string \<Rightarrow> jval option" where
  \<open>demoParse raw =
     map_of
       [(''{"state":"ON","brightness":200}'',
           JObj [(''state'', JStr ''ON''), (''brightness'', JNum 200)]),
        (''{"state":"TOGGLE"}'', JObj [(''state'', JStr ''TOGGLE'')]),
        (''{"state_left":"ON"}'', JObj [(''state_left'', JStr ''ON'')]),
        (''{"state_right":"ON"}'', JObj [(''state_right'', JStr ''ON'')]),
        (''{"color_temp":300,"color":"red","transition":1}'',
           JObj [(''color_temp'', JNum 300), (''color'', JStr ''red''), (''transition'', JNum 1)]),
        (''{"tint_scene":1}'', JObj [(''tint_scene'', JNum 1)]),
        (''{"state":"OFF","color_temp":300}'',
           JObj [(''state'', JStr ''OFF''), (''color_temp'', JNum 300)]),
        (''{"state":"ON","brightness":200,"color_temp":300,"transition":1}'',
           JObj [(''state'', JStr ''ON''), (''brightness'', JNum 200),
                 (''color_temp'', JNum 300), (''transition'', JNum 1)])]
       raw\<close>

definition demoEnv :: "nat env" where
  "demoEnv =
     \<lparr>base_topic = ''zigbee2mqtt'',
      legacy_api = True,
      homeassistant = False,
      endpointNames = [''left'', ''right'', ''center''],
      toZigbeeConverters = demoTable,
      jsonParse = demoParse,
      arraySort = timSortShortV8,
      resolveEntity =
        map_of [(''lamp1'', lamp1), (''plug1'', plug1), (''group1'', group1)],
      findByDevice = (\<lambda>d. if ieeeAddr d = ''0x01'' then Some lampDefinition else None),
      getDevice =
        (\<lambda>e. if deviceIeeeAddr e = ''0x01'' then lampDevice
             else \<lparr>ieeeAddr = deviceIeeeAddr e, modelID = ''UNKNOWN'', endpointIDs = [epID e]\<rparr>),
      stateGet = (\<lambda>i. None)\<rparr>"

text \<open>What a set message to the lamp hands to the loop.\<close>

definition lampCtx :: "jval \<Rightarrow> nat dispatchCtx" where
  "lampCtx json =
     \<lparr>ctxTopic = \<lparr>ID = ''lamp1'', endpointName = [], type = Set, attribute = None\<rparr>,
      ctxEntity = lamp1,
      ctxConverters = toZigbee lampDefinition,
      ctxTarget = Endpoint \<lparr>epID = 1, deviceIeeeAddr = ''0x01''\<rparr>,
      ctxDevice = Some lampDevice,
      ctxMapped = [model lampDefinition],
      ctxMembersState = None,
      ctxEntityState = [],
      ctxJson = json\<rparr>"

subsection \<open>The installation\<close>

lemma demo_base: "base_topic demoEnv = ''zigbee2mqtt''" "endpointNames demoEnv = [''left'', ''right'', ''center'']"
  "legacy_api demoEnv = True" "jsonParse demoEnv = demoParse"
  by (simp_all add: demoEnv_def)

lemma demo_resolve:
  "resolveEntity demoEnv ''lamp1'' = Some lamp1"
  "resolveEntity demoEnv ''plug1'' = Some plug1"
  "resolveEntity demoEnv ''group1'' = Some group1"
  "resolveEntity demoEnv ''unknown'' = None"
  by (simp_all add: demoEnv_def)

lemma demo_topic_lamp1:
  "parseTopic ''zigbee2mqtt'' [''left'', ''right'', ''center''] ''zigbee2mqtt/lamp1/set''
     = Some \<lparr>ID = ''lamp1'', endpointName = [], type = Set, attribute = None\<rparr>"
  by code_simp

lemma demo_topic_plug1:
  "parseTopic ''zigbee2mqtt'' [''left'', ''right'', ''center''] ''zigbee2mqtt/plug1/set''
     = Some \<lparr>ID = ''plug1'', endpointName = [], type = Set, attribute = None\<rparr>"
  by code_simp

lemma demo_topic_unknown:
  "parseTopic ''zigbee2mqtt'' [''left'', ''right'', ''center''] ''zigbee2mqtt/unknown/set''
     = Some \<lparr>ID = ''unknown'', endpointName = [], type = Set, attribute = None\<rparr>"
  by code_simp

lemma demo_topic_group1:
  "parseTopic ''zigbee2mqtt'' [''left'', ''right'', ''center''] ''zigbee2mqtt/group1/set''
     = Some \<lparr>ID = ''group1'', endpointName = [], type = Set, attribute = None\<rparr>"
  by code_simp

lemma demo_lamp_routes:
  "routed demoEnv (lampCtx j) ''brightness'' =
     Some ([], Endpoint \<lparr>epID = 1, deviceIeeeAddr = ''0x01''\<rparr>, ''1'', ''brightness'')"
  "routed demoEnv (lampCtx j) ''state'' =
     Some ([], Endpoint \<lparr>epID = 1, deviceIeeeAddr = ''0x01''\<rparr>, ''1'', ''state'')"
  "routed demoEnv (lampCtx j) ''color'' =
     Some ([], Endpoint \<lparr>epID = 1, deviceIeeeAddr = ''0x01''\<rparr>, ''1'', ''color'')"
  by (simp_all add: routed_def retargetKey_def lampCtx_def lamp1_def targetID_def
        decimal.simps digitChar_def)

lemma demo_lamp_route_color_temp:
  "routed demoEnv (lampCtx j) ''color_temp'' =
     Some ([], Endpoint \<lparr>epID = 1, deviceIeeeAddr = ''0x01''\<rparr>, ''1'', ''color_temp'')"
  by (simp add: routed_def retargetKey_def lampCtx_def lamp1_def targetID_def
        decimal.simps digitChar_def demoEnv_def endsWith_def)

lemma demo_lamp_finds:
  "find (\<lambda>c. ''brightness'' \<in> set (key c)) (ctxConverters (lampCtx j))
     = Some (light_onoff_brightness demoTable)"
  "find (\<lambda>c. ''state'' \<in> set (key c)) (ctxConverters (lampCtx j))
     = Some (light_onoff_brightness demoTable)"
  "find (\<lambda>c. ''color_temp'' \<in> set (key c)) (ctxConverters (lampCtx j))
     = Some (light_color_colortemp demoTable)"
  "find (\<lambda>c. ''color'' \<in> set (key c)) (ctxConverters (lampCtx j))
     = Some (light_color_colortemp demoTable)"
  by (simp_all add: lampCtx_def lampDefinition_def demoTable_def)

lemma demo_lamp_ctx:
  "type (ctxTopic (lampCtx j)) = Set"
  "thrown (loopStart False (0::nat)) = None"
  "usedList (loopStart False (0::nat)) e = []"
  "world (loopStart False (0::nat)) = 0"
  "events (loopStart False (0::nat)) = []"
  by (simp_all add: lampCtx_def loopStart_def usedList_def)

lemma demo_table_ops:
  "convertSet (light_onoff_brightness demoTable) = Some echoSet"
  "convertSet (light_color_colortemp demoTable) = Some failingSet"
  "ref (light_onoff_brightness demoTable) = 1"
  "ref (light_color_colortemp demoTable) = 2"
  by (simp_all add: demoTable_def)


section \<open>Properties\<close>

subsection \<open>Strings and the topic expression\<close>

















subsection \<open>Objects\<close>


lemma objDelete_distinct: "distinct (map fst ob) \<Longrightarrow> distinct (map fst (objDelete ob k))"
  by (simp add: objDelete_def distinct_map_filter)


















subsection \<open>Payloads that do not parse\<close>

text \<open>
  C5. A message without attribute segment whose payload \<^verbatim>\<open>JSON.parse\<close> rejects: when the
  payload in lower case is one of the eight state words, the decoded map is the payload
  under the key \<open>state\<close>; otherwise no converter is called and no state is published, and
  a message that got as far as the decoder ends as invalid payload with one error line.
\<close>

theorem unparseable_payload_is_state_word_or_invalid:
  assumes "parseTopic (base_topic env) (endpointNames env) topicStr = Some topic"
      and "attribute topic = None"
      and "jsonParse env raw = None"
  shows "decodePayload env topic raw =
           (if toLowerCase raw \<in> set stateValues
            then Inr (JObj [(''state'', JStr raw)]) else Inl InvalidPayload)
         \<and> (toLowerCase raw \<notin> set stateValues \<longrightarrow>
              filter isConverterCall (fst (snd (onMQTTMessage env topicStr raw w))) = []
            \<and> filter isStatePublish (fst (snd (onMQTTMessage env topicStr raw w))) = []
            \<and> fst (onMQTTMessage env topicStr raw w) \<in> {EntityNotFound, UnsupportedDevice, InvalidPayload}
            \<and> (\<forall>re d. resolveEntity env (entityKey topic) = Some re \<and> entityDetails env re = Some d \<longrightarrow>
                  onMQTTMessage env topicStr raw w = (InvalidPayload, [Log LError (InvalidJSON raw)], w)))"
proof -
  have dec: "decodePayload env topic raw =
           (if toLowerCase raw \<in> set stateValues
            then Inr (JObj [(''state'', JStr raw)]) else Inl InvalidPayload)"
    using assms(2,3) by (simp add: decodePayload_def falsy_def)
  show ?thesis
    using assms(1) dec
    by (auto simp: onMQTTMessage_def split: option.splits prod.splits)
qed

theorem unparseable_payload_is_state_word_or_invalid_witness:
  "decodePayload demoEnv \<lparr>ID = ''lamp1'', endpointName = [], type = Set, attribute = None\<rparr> ''Off''
     = Inr (JObj [(''state'', JStr ''Off'')])
   \<and> onMQTTMessage demoEnv ''zigbee2mqtt/lamp1/set'' ''not json and not a state word'' 0
     = (InvalidPayload, [Log LError (InvalidJSON ''not json and not a state word'')], 0)"
proof -
  let ?t = "\<lparr>ID = ''lamp1'', endpointName = [], type = Set, attribute = None\<rparr>"
  have p: "parseTopic (base_topic demoEnv) (endpointNames demoEnv) ''zigbee2mqtt/lamp1/set'' = Some ?t"
    by (simp add: demo_base demo_topic_lamp1)
  have a: "attribute ?t = None" by simp
  have j1: "jsonParse demoEnv ''Off'' = None" by (simp add: demo_base demoParse_def)
  have j2: "jsonParse demoEnv ''not json and not a state word'' = None"
    by (simp add: demo_base demoParse_def)
  have w1: "toLowerCase ''Off'' \<in> set stateValues"
    by (simp add: toLowerCase_def lowerChar_def stateValues_def)
  have w2: "toLowerCase ''not json and not a state word'' \<notin> set stateValues"
    by (simp add: toLowerCase_def lowerChar_def stateValues_def)
  have r: "resolveEntity demoEnv (entityKey ?t) = Some lamp1"
    by (simp add: entityKey_def demo_resolve)
  have d: "entityDetails demoEnv lamp1 = Some (toZigbee lampDefinition,
     Endpoint \<lparr>epID = 1, deviceIeeeAddr = ''0x01''\<rparr>, Some lampDevice, [model lampDefinition], None)"
    by (simp add: entityDetails_def lamp1_def)
  from unparseable_payload_is_state_word_or_invalid [OF p a j1, of 0] w1
  have "decodePayload demoEnv ?t ''Off'' = Inr (JObj [(''state'', JStr ''Off'')])" by presburger
  moreover
  from unparseable_payload_is_state_word_or_invalid [OF p a j2, of 0] w2 r d
  have "onMQTTMessage demoEnv ''zigbee2mqtt/lamp1/set'' ''not json and not a state word'' 0
     = (InvalidPayload, [Log LError (InvalidJSON ''not json and not a state word'')], 0)" by blast
  ultimately show ?thesis by blast
qed


subsection \<open>Entities that do not resolve\<close>

text \<open>
  C8. When the entity key does not resolve, and when it resolves to a device without
  definition, the message ends there: no converter is called, no state is published, and
  the record \<^verbatim>\<open>entity_not_found\<close> goes to \<^verbatim>\<open>bridge/log\<close> only for an unknown entity under
  \<^verbatim>\<open>legacy_api\<close>.
\<close>

theorem unknown_or_unsupported_entity_stops_message:
  assumes "parseTopic (base_topic env) (endpointNames env) topicStr = Some topic"
  shows "(resolveEntity env (entityKey topic) = None \<longrightarrow>
            onMQTTMessage env topicStr raw w =
              (EntityNotFound,
               (if legacy_api env
                then [MqttPublish ''bridge/log'' (EntityNotFoundRecord (entityKey topic))] else [])
               @ [Log LError (EntityUnknown (entityKey topic))], w))
       \<and> (\<forall>nm se dev ep. resolveEntity env (entityKey topic) = Some (Device nm se dev ep None) \<longrightarrow>
            onMQTTMessage env topicStr raw w =
              (UnsupportedDevice,
               [Log LWarn (DeviceNotSupported (modelID dev)), Log LWarn SeeSupportPage], w))
       \<and> (resolveEntity env (entityKey topic) = None
            \<or> (\<exists>nm se dev ep. resolveEntity env (entityKey topic) = Some (Device nm se dev ep None)) \<longrightarrow>
            filter isConverterCall (fst (snd (onMQTTMessage env topicStr raw w))) = []
          \<and> filter isStatePublish (fst (snd (onMQTTMessage env topicStr raw w))) = []
          \<and> filter isDiagnosticPublish (fst (snd (onMQTTMessage env topicStr raw w))) =
              (if legacy_api env \<and> resolveEntity env (entityKey topic) = None
               then [MqttPublish ''bridge/log'' (EntityNotFoundRecord (entityKey topic))] else []))"
  using assms
  by (auto simp: onMQTTMessage_def entityDetails_def entityModelID_def)

theorem unknown_or_unsupported_entity_stops_message_witness:
  "onMQTTMessage demoEnv ''zigbee2mqtt/unknown/set'' ''ON'' 0 =
     (EntityNotFound,
      [MqttPublish ''bridge/log'' (EntityNotFoundRecord ''unknown''),
       Log LError (EntityUnknown ''unknown'')], 0)
   \<and> onMQTTMessage demoEnv ''zigbee2mqtt/plug1/set'' ''ON'' 0 =
     (UnsupportedDevice,
      [Log LWarn (DeviceNotSupported ''PLUG-X''), Log LWarn SeeSupportPage], 0)"
proof -
  let ?u = "\<lparr>ID = ''unknown'', endpointName = [], type = Set, attribute = None\<rparr>"
  let ?p = "\<lparr>ID = ''plug1'', endpointName = [], type = Set, attribute = None\<rparr>"
  have pu: "parseTopic (base_topic demoEnv) (endpointNames demoEnv) ''zigbee2mqtt/unknown/set'' = Some ?u"
    by (simp add: demo_base demo_topic_unknown)
  have pp: "parseTopic (base_topic demoEnv) (endpointNames demoEnv) ''zigbee2mqtt/plug1/set'' = Some ?p"
    by (simp add: demo_base demo_topic_plug1)
  have ku: "entityKey ?u = ''unknown''" and kp: "entityKey ?p = ''plug1''"
    by (simp_all add: entityKey_def)
  have ru: "resolveEntity demoEnv (entityKey ?u) = None"
    unfolding ku by (rule demo_resolve)
  have rp: "resolveEntity demoEnv (entityKey ?p) =
      Some (Device ''plug1'' (demoSettings ''0x03'')
             \<lparr>ieeeAddr = ''0x03'', modelID = ''PLUG-X'', endpointIDs = [1]\<rparr>
             \<lparr>epID = 1, deviceIeeeAddr = ''0x03''\<rparr> None)"
    unfolding kp by (simp add: demo_resolve plug1_def)
  from unknown_or_unsupported_entity_stops_message [OF pu, of "''ON''" 0] ru
  have "onMQTTMessage demoEnv ''zigbee2mqtt/unknown/set'' ''ON'' 0 =
     (EntityNotFound,
      (if legacy_api demoEnv
                then [MqttPublish ''bridge/log'' (EntityNotFoundRecord (entityKey ?u))] else [])
               @ [Log LError (EntityUnknown (entityKey ?u))], 0)" by blast
  then have one: "onMQTTMessage demoEnv ''zigbee2mqtt/unknown/set'' ''ON'' 0 =
     (EntityNotFound,
      [MqttPublish ''bridge/log'' (EntityNotFoundRecord ''unknown''),
       Log LError (EntityUnknown ''unknown'')], 0)"
    unfolding ku by (simp add: demo_base)
  from unknown_or_unsupported_entity_stops_message [OF pp, of "''ON''" 0] rp
  have "onMQTTMessage demoEnv ''zigbee2mqtt/plug1/set'' ''ON'' 0 =
     (UnsupportedDevice,
      [Log LWarn (DeviceNotSupported (modelID \<lparr>ieeeAddr = ''0x03'', modelID = ''PLUG-X'', endpointIDs = [1]\<rparr>)),
       Log LWarn SeeSupportPage], 0)" by blast
  then have two: "onMQTTMessage demoEnv ''zigbee2mqtt/plug1/set'' ''ON'' 0 =
     (UnsupportedDevice,
      [Log LWarn (DeviceNotSupported ''PLUG-X''), Log LWarn SeeSupportPage], 0)" by simp
  from one two show ?thesis by blast
qed


subsection \<open>The converters of a group\<close>










subsection \<open>The loop, turn by turn\<close>

lemma attributeStep_routed:
  "routed env cx (fst kv) = Some (epn, tg, eid, k) \<Longrightarrow>
     attributeStep env cx st kv = convertAttribute env cx st epn tg eid k (snd kv)"
  by (auto simp: routed_def attributeStep_def split: retarget.splits)

lemma attributeStep_not_routed:
  "routed env cx (fst kv) = None \<Longrightarrow>
     (\<exists>n. attributeStep env cx st kv
            = st\<lparr>events := events st @ [Log LError (NoEndpoint (entityName (ctxEntity cx)) n)]\<rparr>)
     \<or> (\<exists>err. attributeStep env cx st kv = st\<lparr>thrown := Some err\<rparr>)"
  by (auto simp: routed_def attributeStep_def split: retarget.splits)

lemma applyResult_fields:
  "usedConverters (applyResult cx c m epn tg k st res) = usedConverters st"
  "world (applyResult cx c m epn tg k st res) = world st"
  "thrown (applyResult cx c m epn tg k st res) = thrown st"
  "filter isConverterCall (events (applyResult cx c m epn tg k st res))
     = filter isConverterCall (events st)"
  "filter (isCallOf e r) (events (applyResult cx c m epn tg k st res))
     = filter (isCallOf e r) (events st)"
  by (simp_all add: applyResult_def Let_def split: option.splits)

lemma catchError_fields:
  "usedConverters (catchError env cx k st err) = usedConverters st"
  "toPublish (catchError env cx k st err) = toPublish st"
  "world (catchError env cx k st err) = world st"
  "thrown (catchError env cx k st err) = thrown st"
  "filter (isCallOf e r) (events (catchError env cx k st err)) = filter (isCallOf e r) (events st)"
  by (simp_all add: catchError_def Let_def)

lemma pushUsed_fields:
  "toPublish (pushUsed eid c st) = toPublish st"
  "events (pushUsed eid c st) = events st"
  "world (pushUsed eid c st) = world st"
  "thrown (pushUsed eid c st) = thrown st"
  "usedList (pushUsed eid c st) e = (if e = eid then usedList st eid @ [ref c] else usedList st e)"
  by (simp_all add: pushUsed_def usedList_def)

lemma usedList_updates:
  "usedList (st\<lparr>events := ev\<rparr>) e = usedList st e"
  "usedList (st\<lparr>world := w\<rparr>) e = usedList st e"
  "usedList (st\<lparr>toPublish := tp\<rparr>) e = usedList st e"
  "usedList (st\<lparr>thrown := th\<rparr>) e = usedList st e"
  "usedList (applyResult cx c m epn tg k st res) e = usedList st e"
  "usedList (catchError env cx k st err) e = usedList st e"
  by (simp_all add: usedList_def applyResult_fields catchError_fields)

text \<open>What a turn that reaches the \<^verbatim>\<open>try\<close> statement of a set message does to the books.\<close>

lemma runConverter_set_used:
  assumes "type (ctxTopic cx) = Set"
  shows "usedList (runConverter env cx c m epn tg eid k v st) e =
           (if convertSet c \<noteq> None \<and> e = eid then usedList st eid @ [ref c] else usedList st e)"
  using assms
  by (simp add: runConverter_def Let_def pushUsed_fields usedList_updates
           split: option.splits sum.splits)


lemma runConverter_thrown: "thrown (runConverter env cx c m epn tg eid k v st) = thrown st"
  by (simp add: runConverter_def Let_def pushUsed_fields applyResult_fields catchError_fields
           split: option.splits sum.splits)

lemma convertAttribute_thrown: "thrown (convertAttribute env cx st epn tg eid k v) = thrown st"
  by (simp add: convertAttribute_def Let_def runConverter_thrown split: option.splits)

lemma usedList_init:
  "usedList (st\<lparr>usedConverters := (usedConverters st)(eid \<mapsto> usedList st eid)\<rparr>) e = usedList st e"
  by (simp add: usedList_def)

lemma convertAttribute_set_used:
  assumes "type (ctxTopic cx) = Set"
  shows "usedList (convertAttribute env cx st epn tg eid k v) e =
           (case find (\<lambda>c. k \<in> set (key c)) (ctxConverters cx) of
              None \<Rightarrow> usedList st e
            | Some c \<Rightarrow>
                if ref c \<notin> set (usedList st eid) \<and> convertSet c \<noteq> None \<and> e = eid
                then usedList st eid @ [ref c] else usedList st e)"
  using assms
  by (simp add: convertAttribute_def Let_def usedList_init
                usedList_updates runConverter_set_used
           split: option.splits)




lemma usedList_step_mono:
  assumes "type (ctxTopic cx) = Set" and "r \<in> set (usedList st e)"
  shows "r \<in> set (usedList (attributeStep env cx st kv) e)"
proof (cases "routed env cx (fst kv)")
  case None
  from attributeStep_not_routed[OF None, of st]
  show ?thesis using assms(2) by (auto simp: usedList_updates)
next
  case (Some x)
  obtain epn tg eid k where x: "x = (epn, tg, eid, k)" by (cases x) auto
  have step: "attributeStep env cx st kv = convertAttribute env cx st epn tg eid k (snd kv)"
    using attributeStep_routed Some x by metis
  show ?thesis unfolding step using assms(2)
    by (auto simp: convertAttribute_set_used[OF assms(1)] split: option.splits)
qed

lemma usedList_loop_mono:
  assumes "type (ctxTopic cx) = Set" and "r \<in> set (usedList st e)"
  shows "r \<in> set (usedList (dispatchLoop env cx st xs) e)"
  using assms(2)
proof (induction xs arbitrary: st)
  case Nil
  then show ?case by simp
next
  case (Cons kv rest)
  have "r \<in> set (usedList (attributeStep env cx st kv) e)"
    using usedList_step_mono[OF assms(1) Cons.prems] .
  then show ?case using Cons.IH by (simp add: Let_def)
qed

text \<open>Line 193: a set message passes over an attribute whose converter is booked.\<close>

lemma attributeStep_skips_used:
  assumes "type (ctxTopic cx) = Set"
      and "routed env cx k = Some (epn, tg, eid, k')"
      and "find (\<lambda>c. k' \<in> set (key c)) (ctxConverters cx) = Some c"
      and "ref c \<in> set (usedList st eid)"
  shows "attributeStep env cx st (k, v) = st"
proof -
  have step: "attributeStep env cx st (k, v) = convertAttribute env cx st epn tg eid k' v"
    using attributeStep_routed[of env cx "(k, v)"] assms(2) by simp
  obtain l where l: "usedConverters st eid = Some l"
  proof (cases "usedConverters st eid")
    case None
    then have "usedList st eid = []" by (simp add: usedList_def)
    then show ?thesis using assms(4) by simp
  next
    case (Some l)
    then show ?thesis using that by blast
  qed
  then have "(usedConverters st)(eid \<mapsto> usedList st eid) = usedConverters st"
    by (simp add: map_upd_triv usedList_def)
  then show ?thesis
    unfolding step using assms(1,3,4)
    by (simp add: convertAttribute_def)
qed

text \<open>After a turn that found a converter with a write operation, the converter is booked.\<close>

lemma attributeStep_books:
  assumes "type (ctxTopic cx) = Set"
      and "routed env cx k = Some (epn, tg, eid, k')"
      and "find (\<lambda>c. k' \<in> set (key c)) (ctxConverters cx) = Some c"
      and "convertSet c \<noteq> None"
  shows "ref c \<in> set (usedList (attributeStep env cx st (k, v)) eid)"
proof -
  have step: "attributeStep env cx st (k, v) = convertAttribute env cx st epn tg eid k' v"
    using attributeStep_routed[of env cx "(k, v)"] assms(2) by simp
  show ?thesis unfolding step using assms(3,4)
    by (simp add: convertAttribute_set_used[OF assms(1)])
qed

lemma dispatchLoop_append:
  assumes "thrown st = None"
  shows "dispatchLoop env cx st (xs @ ys) =
           (if thrown (dispatchLoop env cx st xs) = None
            then dispatchLoop env cx (dispatchLoop env cx st xs) ys
            else dispatchLoop env cx st xs)"
  using assms
proof (induction xs arbitrary: st)
  case Nil
  then show ?case by simp
next
  case (Cons kv rest)
  let ?s1 = "attributeStep env cx st kv"
  show ?case
  proof (cases "thrown ?s1")
    case None
    have l: "dispatchLoop env cx st ((kv # rest) @ ys) = dispatchLoop env cx ?s1 (rest @ ys)"
      using None by (simp add: Let_def)
    have r: "dispatchLoop env cx st (kv # rest) = dispatchLoop env cx ?s1 rest"
      using None by (simp add: Let_def)
    show ?thesis unfolding l r using Cons.IH[OF None] .
  next
    case (Some err)
    have l: "dispatchLoop env cx st ((kv # rest) @ ys) = ?s1"
      using Some by (simp add: Let_def)
    have r: "dispatchLoop env cx st (kv # rest) = ?s1"
      using Some by (simp add: Let_def)
    show ?thesis unfolding l r using Some by simp
  qed
qed

text \<open>The run of a set message is the run without the later attribute of a booked converter.\<close>

lemma later_attribute_skipped:
  assumes ty: "type (ctxTopic cx) = Set"
      and go: "thrown st = None"
      and r1: "routed env cx k1 = Some (epn1, tg1, eid, k1')"
      and r2: "routed env cx k2 = Some (epn2, tg2, eid, k2')"
      and f1: "find (\<lambda>c. k1' \<in> set (key c)) (ctxConverters cx) = Some c"
      and f2: "find (\<lambda>c. k2' \<in> set (key c)) (ctxConverters cx) = Some c"
      and wr: "convertSet c \<noteq> None"
  shows "dispatchLoop env cx st ((k1, v1) # mid @ (k2, v2) # rest)
           = dispatchLoop env cx st ((k1, v1) # mid @ rest)"
proof -
  let ?pre = "(k1, v1) # mid"
  let ?s2 = "dispatchLoop env cx st ?pre"
  let ?s1 = "attributeStep env cx st (k1, v1)"
  have l: "dispatchLoop env cx st (?pre @ (k2, v2) # rest) =
             (if thrown ?s2 = None then dispatchLoop env cx ?s2 ((k2, v2) # rest) else ?s2)"
    using dispatchLoop_append[OF go] .
  have r: "dispatchLoop env cx st (?pre @ rest) =
             (if thrown ?s2 = None then dispatchLoop env cx ?s2 rest else ?s2)"
    using dispatchLoop_append[OF go] .
  have same: "thrown ?s2 = None \<Longrightarrow>
                dispatchLoop env cx ?s2 ((k2, v2) # rest) = dispatchLoop env cx ?s2 rest"
  proof -
    assume n: "thrown ?s2 = None"
    have s1: "thrown ?s1 = None"
    proof (cases "thrown ?s1")
      case None
      then show ?thesis .
    next
      case (Some err)
      then have "?s2 = ?s1" by (simp add: Let_def)
      then show ?thesis using n by simp
    qed
    have "?s2 = dispatchLoop env cx ?s1 mid" using s1 by (simp add: Let_def)
    moreover have "ref c \<in> set (usedList ?s1 eid)"
      using attributeStep_books[OF ty r1 f1 wr] .
    ultimately have "ref c \<in> set (usedList ?s2 eid)"
      using usedList_loop_mono[OF ty] by metis
    then have "attributeStep env cx ?s2 (k2, v2) = ?s2"
      using attributeStep_skips_used[OF ty r2 f2] by blast
    then show ?thesis using n by (simp add: Let_def)
  qed
  show ?thesis
  proof (cases "thrown ?s2")
    case None
    then show ?thesis using l r same by simp
  next
    case (Some err)
    then show ?thesis using l r by simp
  qed
qed



lemma usedList_set:
  "usedList (st\<lparr>usedConverters := f\<rparr>) e = (case f e of None \<Rightarrow> [] | Some l \<Rightarrow> l)"
  by (simp add: usedList_def)

text \<open>The turn of an attribute whose converter raises in its write or read operation.\<close>

lemma attributeStep_raises:
  assumes r: "routed env cx k = Some (epn, tg, eid, k')"
      and f: "find (\<lambda>c. k' \<in> set (key c)) (ctxConverters cx) = Some c"
      and fresh: "type (ctxTopic cx) = Set \<longrightarrow> ref c \<notin> set (usedList st eid)"
      and fail: "(type (ctxTopic cx) = Set
                   \<and> (\<exists>wr. convertSet c = Some wr
                         \<and> wr (world st) tg k' v (makeMeta cx epn) = (Inl err, w')))
                 \<or> (type (ctxTopic cx) = Get
                   \<and> (\<exists>rd. convertGet c = Some rd
                         \<and> rd (world st) tg k' (makeMeta cx epn) = (Inl err, w')))"
  shows "attributeStep env cx st (k, v) =
           st\<lparr>usedConverters := (usedConverters st)(eid \<mapsto> usedList st eid @ [ref c]),
              events := events st
                @ [Log LDebug (Publishing (type (ctxTopic cx)) k' (entityName (ctxEntity cx))),
                   (if type (ctxTopic cx) = Set
                    then ConvertSetCall eid (ref c) tg k' v (makeMeta cx epn)
                    else ConvertGetCall eid (ref c) tg k' (makeMeta cx epn)),
                   Log LError (PublishFailed (type (ctxTopic cx)) k' (entityName (ctxEntity cx)) err),
                   Log LDebug (ErrorStack err)]
                @ (if legacy_api env
                   then [MqttPublish ''bridge/log''
                           (ZigbeePublishErrorRecord
                              (PublishFailed (type (ctxTopic cx)) k' (entityName (ctxEntity cx)) err)
                              (entityName (ctxEntity cx)))]
                   else []),
              world := w'\<rparr>"
proof -
  have step: "attributeStep env cx st (k, v) = convertAttribute env cx st epn tg eid k' v"
    using attributeStep_routed[of env cx "(k, v)"] r by simp
  show ?thesis
  proof (cases "type (ctxTopic cx)")
    case Set
    then obtain wr where w: "convertSet c = Some wr"
      "wr (world st) tg k' v (makeMeta cx epn) = (Inl err, w')"
      using fail by auto
    show ?thesis unfolding step using Set w f fresh
      by (simp add: convertAttribute_def runConverter_def pushUsed_def catchError_def
            Let_def usedList_updates usedList_set)
  next
    case Get
    then obtain rd where w: "convertGet c = Some rd"
      "rd (world st) tg k' (makeMeta cx epn) = (Inl err, w')"
      using fail by auto
    show ?thesis unfolding step using Get w f
      by (simp add: convertAttribute_def runConverter_def pushUsed_def catchError_def
            Let_def usedList_updates usedList_set)
  qed
qed


subsection \<open>Endpoint names in keys\<close>

lemma endsWith_append: "endsWith (b @ p) p"
  by (simp add: endsWith_def)












subsection \<open>One call per converter and identifier\<close>




subsection \<open>A converter that raises\<close>

text \<open>
  C2. An exception that the write or read operation of an attribute's converter raises
  stays inside the turn of that attribute: the turn ends without exception, with the call,
  the error line and the stack in the events, the record \<^verbatim>\<open>zigbee_publish_error\<close> on
  \<^verbatim>\<open>bridge/log\<close> only under \<^verbatim>\<open>legacy_api\<close>, and the converter booked; the loop goes on
  with the attributes that follow.
\<close>

theorem converter_exception_is_contained:
  assumes go: "thrown st = None"
      and r: "routed env cx k = Some (epn, tg, eid, k')"
      and f: "find (\<lambda>c. k' \<in> set (key c)) (ctxConverters cx) = Some c"
      and fresh: "type (ctxTopic cx) = Set \<longrightarrow> ref c \<notin> set (usedList st eid)"
      and fail: "(type (ctxTopic cx) = Set
                   \<and> (\<exists>wr. convertSet c = Some wr
                         \<and> wr (world st) tg k' v (makeMeta cx epn) = (Inl err, w')))
                 \<or> (type (ctxTopic cx) = Get
                   \<and> (\<exists>rd. convertGet c = Some rd
                         \<and> rd (world st) tg k' (makeMeta cx epn) = (Inl err, w')))"
  shows "thrown (attributeStep env cx st (k, v)) = None
       \<and> dispatchLoop env cx st ((k, v) # rest) =
           dispatchLoop env cx
             (st\<lparr>usedConverters := (usedConverters st)(eid \<mapsto> usedList st eid @ [ref c]),
                events := events st
                  @ [Log LDebug (Publishing (type (ctxTopic cx)) k' (entityName (ctxEntity cx))),
                     (if type (ctxTopic cx) = Set
                      then ConvertSetCall eid (ref c) tg k' v (makeMeta cx epn)
                      else ConvertGetCall eid (ref c) tg k' (makeMeta cx epn)),
                     Log LError (PublishFailed (type (ctxTopic cx)) k' (entityName (ctxEntity cx)) err),
                     Log LDebug (ErrorStack err)]
                  @ (if legacy_api env
                     then [MqttPublish ''bridge/log''
                             (ZigbeePublishErrorRecord
                                (PublishFailed (type (ctxTopic cx)) k' (entityName (ctxEntity cx)) err)
                                (entityName (ctxEntity cx)))]
                     else []),
                world := w'\<rparr>)
             rest"
proof -
  have t: "thrown (attributeStep env cx st (k, v)) = None"
    using attributeStep_routed[of env cx "(k, v)"] r go by (simp add: convertAttribute_thrown)
  have "dispatchLoop env cx st ((k, v) # rest)
          = dispatchLoop env cx (attributeStep env cx st (k, v)) rest"
    using t by (simp add: Let_def)
  then show ?thesis
    using t attributeStep_raises[OF r f fresh fail] by simp
qed

theorem converter_exception_is_contained_witness:
  \<open>thrown (attributeStep demoEnv (lampCtx (JObj [(''state'', JStr ''OFF''), (''color_temp'', JNum 300)]))
             (loopStart False 0) (''color_temp'', JNum 300)) = None
   \<and> onMQTTMessage demoEnv ''zigbee2mqtt/lamp1/set'' ''{"state":"OFF","color_temp":300}'' 0 =
     (Completed,
      [Log LDebug (Publishing Set ''color_temp'' ''lamp1''),
       ConvertSetCall ''1'' 2 (Endpoint \<lparr>epID = 1, deviceIeeeAddr = ''0x01''\<rparr>)
         ''color_temp'' (JNum 300)
         \<lparr>endpoint_name = [], options = demoSettings ''0x01'',
          message = [(''state'', JStr ''OFF''), (''color_temp'', JNum 300)],
          device = Some lampDevice, state = [], membersState = None, mapped = [''LAMP-2'']\<rparr>,
       Log LError (PublishFailed Set ''color_temp'' ''lamp1'' (Error ''Error'' ''no response'')),
       Log LDebug (ErrorStack (Error ''Error'' ''no response'')),
       MqttPublish ''bridge/log''
         (ZigbeePublishErrorRecord
            (PublishFailed Set ''color_temp'' ''lamp1'' (Error ''Error'' ''no response'')) ''lamp1''),
       Log LDebug (Publishing Set ''state'' ''lamp1''),
       ConvertSetCall ''1'' 1 (Endpoint \<lparr>epID = 1, deviceIeeeAddr = ''0x01''\<rparr>)
         ''state'' (JStr ''OFF'')
         \<lparr>endpoint_name = [], options = demoSettings ''0x01'',
          message = [(''state'', JStr ''OFF''), (''color_temp'', JNum 300)],
          device = Some lampDevice, state = [], membersState = None, mapped = [''LAMP-2'']\<rparr>,
       PublishEntityState ''0x01'' [(''state'', JStr ''OFF'')]],
      2)\<close>
proof -
  let ?cx = "lampCtx (JObj [(''state'', JStr ''OFF''), (''color_temp'', JNum 300)])"
  have fresh: "type (ctxTopic ?cx) = Set \<longrightarrow>
                 ref (light_color_colortemp demoTable) \<notin> set (usedList (loopStart False (0::nat)) ''1'')"
    by (simp add: demo_lamp_ctx)
  have fail: "(type (ctxTopic ?cx) = Set
                \<and> (\<exists>wr. convertSet (light_color_colortemp demoTable) = Some wr
                     \<and> wr (world (loopStart False (0::nat))) (Endpoint \<lparr>epID = 1, deviceIeeeAddr = ''0x01''\<rparr>)
                          ''color_temp'' (JNum 300) (makeMeta ?cx [])
                        = (Inl (Error ''Error'' ''no response''), 1)))
              \<or> (type (ctxTopic ?cx) = Get
                \<and> (\<exists>rd. convertGet (light_color_colortemp demoTable) = Some rd
                     \<and> rd (world (loopStart False (0::nat))) (Endpoint \<lparr>epID = 1, deviceIeeeAddr = ''0x01''\<rparr>)
                          ''color_temp'' (makeMeta ?cx [])
                        = (Inl (Error ''Error'' ''no response''), 1)))"
    by (simp add: demo_lamp_ctx demo_table_ops failingSet_def)
  from converter_exception_is_contained
         [OF demo_lamp_ctx(2) demo_lamp_route_color_temp demo_lamp_finds(3) fresh fail]
  have one: "thrown (attributeStep demoEnv ?cx (loopStart False 0) (''color_temp'', JNum 300)) = None"
    by blast
  have two: \<open>onMQTTMessage demoEnv ''zigbee2mqtt/lamp1/set'' ''{"state":"OFF","color_temp":300}'' 0 =
     (Completed,
      [Log LDebug (Publishing Set ''color_temp'' ''lamp1''),
       ConvertSetCall ''1'' 2 (Endpoint \<lparr>epID = 1, deviceIeeeAddr = ''0x01''\<rparr>)
         ''color_temp'' (JNum 300)
         \<lparr>endpoint_name = [], options = demoSettings ''0x01'',
          message = [(''state'', JStr ''OFF''), (''color_temp'', JNum 300)],
          device = Some lampDevice, state = [], membersState = None, mapped = [''LAMP-2'']\<rparr>,
       Log LError (PublishFailed Set ''color_temp'' ''lamp1'' (Error ''Error'' ''no response'')),
       Log LDebug (ErrorStack (Error ''Error'' ''no response'')),
       MqttPublish ''bridge/log''
         (ZigbeePublishErrorRecord
            (PublishFailed Set ''color_temp'' ''lamp1'' (Error ''Error'' ''no response'')) ''lamp1''),
       Log LDebug (Publishing Set ''state'' ''lamp1''),
       ConvertSetCall ''1'' 1 (Endpoint \<lparr>epID = 1, deviceIeeeAddr = ''0x01''\<rparr>)
         ''state'' (JStr ''OFF'')
         \<lparr>endpoint_name = [], options = demoSettings ''0x01'',
          message = [(''state'', JStr ''OFF''), (''color_temp'', JNum 300)],
          device = Some lampDevice, state = [], membersState = None, mapped = [''LAMP-2'']\<rparr>,
       PublishEntityState ''0x01'' [(''state'', JStr ''OFF'')]],
      2)\<close>
    by code_simp
  from one two show ?thesis by blast
qed


text \<open>
  C10. In a set message, a converter whose write operation raised is booked under its
  identifier all the same, and a later attribute that chooses the same converter under the
  same identifier is passed over without a trace: the run is the run of the message
  without that attribute.
\<close>

theorem failed_write_is_booked:
  assumes ty: "type (ctxTopic cx) = Set"
      and go: "thrown st = None"
      and r1: "routed env cx k1 = Some (epn1, tg1, eid, k1')"
      and f1: "find (\<lambda>c. k1' \<in> set (key c)) (ctxConverters cx) = Some c"
      and fresh: "ref c \<notin> set (usedList st eid)"
      and op: "convertSet c = Some wr"
      and fail: "wr (world st) tg1 k1' v1 (makeMeta cx epn1) = (Inl err, w')"
      and r2: "routed env cx k2 = Some (epn2, tg2, eid, k2')"
      and f2: "find (\<lambda>c. k2' \<in> set (key c)) (ctxConverters cx) = Some c"
  shows "usedList (attributeStep env cx st (k1, v1)) eid = usedList st eid @ [ref c]
       \<and> dispatchLoop env cx st ((k1, v1) # mid @ (k2, v2) # rest)
           = dispatchLoop env cx st ((k1, v1) # mid @ rest)"
proof -
  have "type (ctxTopic cx) = Set \<longrightarrow> ref c \<notin> set (usedList st eid)" using fresh by simp
  moreover have "(type (ctxTopic cx) = Set
                   \<and> (\<exists>wr. convertSet c = Some wr
                         \<and> wr (world st) tg1 k1' v1 (makeMeta cx epn1) = (Inl err, w')))
                 \<or> (type (ctxTopic cx) = Get
                   \<and> (\<exists>rd. convertGet c = Some rd
                         \<and> rd (world st) tg1 k1' (makeMeta cx epn1) = (Inl err, w')))"
    using ty op fail by simp
  ultimately have "usedList (attributeStep env cx st (k1, v1)) eid = usedList st eid @ [ref c]"
    using attributeStep_raises[OF r1 f1, where st = st and v = v1 and err = err and w' = w']
    by (simp add: usedList_set usedList_updates)
  moreover have "convertSet c \<noteq> None" using op by simp
  then have "dispatchLoop env cx st ((k1, v1) # mid @ (k2, v2) # rest)
           = dispatchLoop env cx st ((k1, v1) # mid @ rest)"
    using later_attribute_skipped[OF ty go r1 r2 f1 f2] by blast
  ultimately show ?thesis by blast
qed

theorem failed_write_is_booked_witness:
  "usedList (attributeStep demoEnv
       (lampCtx (JObj [(''color_temp'', JNum 300), (''color'', JStr ''red''), (''transition'', JNum 1)]))
       (loopStart False 0) (''color_temp'', JNum 300)) ''1''
     = usedList (loopStart False (0::nat)) ''1'' @ [ref (light_color_colortemp demoTable)]
   \<and> dispatchLoop demoEnv
       (lampCtx (JObj [(''color_temp'', JNum 300), (''color'', JStr ''red''), (''transition'', JNum 1)]))
       (loopStart False 0)
       ((''color_temp'', JNum 300) # [] @ (''color'', JStr ''red'') # [(''transition'', JNum 1)])
     = dispatchLoop demoEnv
       (lampCtx (JObj [(''color_temp'', JNum 300), (''color'', JStr ''red''), (''transition'', JNum 1)]))
       (loopStart False 0)
       ((''color_temp'', JNum 300) # [] @ [(''transition'', JNum 1)])"
proof -
  let ?cx = "lampCtx (JObj [(''color_temp'', JNum 300), (''color'', JStr ''red''), (''transition'', JNum 1)])"
  have fresh: "ref (light_color_colortemp demoTable) \<notin> set (usedList (loopStart False (0::nat)) ''1'')"
    by (simp add: demo_lamp_ctx)
  have fail: "failingSet (world (loopStart False (0::nat)))
                (Endpoint \<lparr>epID = 1, deviceIeeeAddr = ''0x01''\<rparr>) ''color_temp'' (JNum 300)
                (makeMeta ?cx [])
              = (Inl (Error ''Error'' ''no response''), 1)"
    by (simp add: demo_lamp_ctx failingSet_def)
  show ?thesis
    by (rule failed_write_is_booked
               [OF demo_lamp_ctx(1) demo_lamp_ctx(2) demo_lamp_route_color_temp demo_lamp_finds(3)
                   fresh demo_table_ops(2) fail demo_lamp_routes(3) demo_lamp_finds(4)])
qed


subsection \<open>Endpoint names in attribute names\<close>






subsection \<open>The flush\<close>

text \<open>
  C3. The buffer is flushed after the loop, one publish for each identifier in it. An
  entry is published as it is, also when it is empty: a write to the group whose result
  holds an empty state for the member \<open>0x02\<close> ends in a publish of the empty map for
  \<open>0x02\<close>.
\<close>

theorem empty_member_entry_is_flushed:
  \<open>onMQTTMessage demoEnv ''zigbee2mqtt/group1/set'' ''{"tint_scene":1}'' 0 =
     (Completed,
      [Log LDebug (Publishing Set ''tint_scene'' ''group1''),
       ConvertSetCall ''1'' 7
         (Group \<lparr>groupID = 1, members = [\<lparr>epID = 1, deviceIeeeAddr = ''0x02''\<rparr>]\<rparr>)
         ''tint_scene'' (JNum 1)
         \<lparr>endpoint_name = [], options = demoSettings ''1'',
          message = [(''tint_scene'', JNum 1)],
          device = None, state = [], membersState = Some [(''0x02'', None)], mapped = []\<rparr>,
       PublishEntityState ''0x02'' []],
      1)\<close>
  by code_simp


subsection \<open>The order of the attributes\<close>

text \<open>
  C4. The order of the attributes is what the sort of the engine makes of a compare
  function that looks at one argument only. For the map with \<open>state\<close>, \<open>brightness\<close>,
  \<open>color_temp\<close> and \<open>transition\<close> in this order and the state \<open>ON\<close>, the specification
  asks for the order as it is; TimSort swaps \<open>state\<close> and \<open>brightness\<close>, the older
  insertion sort swaps \<open>color_temp\<close> and \<open>transition\<close>.
\<close>

theorem one_sided_compare_is_not_stable:
  "map fst (stableRankOrder
       (JObj [(''state'', JStr ''ON''), (''brightness'', JNum 200),
              (''color_temp'', JNum 300), (''transition'', JNum 1)]))
     = [''state'', ''brightness'', ''color_temp'', ''transition'']
   \<and> map fst (orderedEntries (demoEnv\<lparr>arraySort := timSortShortV8\<rparr>)
       (JObj [(''state'', JStr ''ON''), (''brightness'', JNum 200),
              (''color_temp'', JNum 300), (''transition'', JNum 1)]))
     = [''brightness'', ''state'', ''color_temp'', ''transition'']
   \<and> map fst (orderedEntries (demoEnv\<lparr>arraySort := insertionSortV8\<rparr>)
       (JObj [(''state'', JStr ''ON''), (''brightness'', JNum 200),
              (''color_temp'', JNum 300), (''transition'', JNum 1)]))
     = [''state'', ''brightness'', ''transition'', ''color_temp'']"
  by code_simp


end
